theory Spec2Isabelle
  imports Complex_Main
begin

section \<open>GridQ dispatch engine: data model\<close>

text \<open>
  Python floats are modelled as real numbers (exact arithmetic). Where the source can
  raise, the model returns \<open>Inl\<close> of the exception; every function that can raise has
  the result type \<open>error + 'a\<close>.
\<close>

subsection \<open>Exceptions\<close>

text \<open>
  The f-string of each \<open>ValidationError\<close> of \<open>core/validate.py\<close> is kept as its
  fixed text together with the value that the source formats into it: a column name
  for "has negative values", the bound (in kWh or kW) for the others.
\<close>

datatype validation_message =
    HasNegativeValues string
  | SocBelowMinimum real
  | SocAboveMaximum real
  | ChargePowerExceedsLimit real
  | DischargePowerExceedsLimit real
  | GridImportExceedsLimit real
  | GridExportExceedsLimit real

text \<open>
  \<open>NonFiniteFloat\<close> is not a Python exception: it marks a run in which numpy's
  division by zero yields \<open>-inf\<close>, a value with no counterpart among the reals. The
  source does not raise there; the model stops.
\<close>

datatype error =
    ZeroDivisionError
  | ValueError string
  | RuntimeError string
  | ValidationError validation_message
  | NonFiniteFloat

subsection \<open>core/constants.py\<close>

definition COL_GRID_IMPORT_KW :: string where
  "COL_GRID_IMPORT_KW = ''grid_import_kw''"

definition COL_GRID_EXPORT_KW :: string where
  "COL_GRID_EXPORT_KW = ''grid_export_kw''"

definition COL_BATTERY_CHARGE_KW :: string where
  "COL_BATTERY_CHARGE_KW = ''battery_charge_kw''"

definition COL_BATTERY_DISCHARGE_KW :: string where
  "COL_BATTERY_DISCHARGE_KW = ''battery_discharge_kw''"

definition NUMERICAL_TOLERANCE :: real where
  "NUMERICAL_TOLERANCE = 1 / 1000000"

subsection \<open>core/schemas.py\<close>

record BatteryConfig =
  capacity_kwh :: real
  max_charge_kw :: real
  max_discharge_kw :: real
  charge_efficiency :: real
  discharge_efficiency :: real
  min_soc_frac :: real
  max_soc_frac :: real
  initial_soc_frac :: real
  degradation_cost_gbp_per_kwh :: real

record TariffConfig =
  flat_import_price_gbp_per_kwh :: "real option"
  flat_export_price_gbp_per_kwh :: "real option"
  demand_charge_enabled :: bool
  demand_charge_gbp_per_kw :: real

record SiteConfig =
  site_id :: string
  battery :: BatteryConfig
  max_grid_import_kw :: "real option"
  max_grid_export_kw :: "real option"

record RunConfig =
  run_id :: string
  timestep_minutes :: int
  horizon_hours :: int
  tariff :: TariffConfig
  solver_time_limit_seconds :: real
  solver_gap_tolerance :: real

text \<open>
  The \<open>Field(...)\<close> constraints of the pydantic models: what a constructed
  \<open>BatteryConfig\<close> and \<open>SiteConfig\<close> satisfy. The efficiencies are \<open>ge=0\<close>, so a
  zero efficiency passes; no validator relates \<open>min_soc_frac\<close>, \<open>max_soc_frac\<close>
  and \<open>initial_soc_frac\<close> to each other.
\<close>

definition BatteryConfig_fields_ok :: "BatteryConfig \<Rightarrow> bool" where
  "BatteryConfig_fields_ok b =
     (0 < capacity_kwh b \<and> 0 < max_charge_kw b \<and> 0 < max_discharge_kw b \<and>
      0 \<le> charge_efficiency b \<and> charge_efficiency b \<le> 1 \<and>
      0 \<le> discharge_efficiency b \<and> discharge_efficiency b \<le> 1 \<and>
      0 \<le> min_soc_frac b \<and> min_soc_frac b \<le> 1 \<and>
      0 \<le> max_soc_frac b \<and> max_soc_frac b \<le> 1 \<and>
      0 \<le> initial_soc_frac b \<and> initial_soc_frac b \<le> 1 \<and>
      0 \<le> degradation_cost_gbp_per_kwh b)"

definition optional_gt0 :: "real option \<Rightarrow> bool" where
  "optional_gt0 v = (case v of None \<Rightarrow> True | Some x \<Rightarrow> 0 < x)"

definition SiteConfig_fields_ok :: "SiteConfig \<Rightarrow> bool" where
  "SiteConfig_fields_ok s =
     (BatteryConfig_fields_ok (battery s) \<and>
      optional_gt0 (max_grid_import_kw s) \<and> optional_gt0 (max_grid_export_kw s))"

subsection \<open>Data frames\<close>

text \<open>
  The input timeseries is a frame with the columns \<open>load_kw\<close> and \<open>pv_kw\<close> and,
  optionally, the two price columns; \<open>len(ts)\<close> is the length of \<open>load_kw\<close>. All
  columns of a pandas frame have the same length (\<open>timeseries_ok\<close>).
\<close>

record timeseries =
  load_kw :: "real list"
  pv_kw :: "real list"
  import_price_gbp_per_kwh :: "real list option"
  export_price_gbp_per_kwh :: "real list option"

definition column_ok :: "nat \<Rightarrow> real list option \<Rightarrow> bool" where
  "column_ok n c = (case c of None \<Rightarrow> True | Some xs \<Rightarrow> length xs = n)"

definition timeseries_ok :: "timeseries \<Rightarrow> bool" where
  "timeseries_ok ts =
     (length (pv_kw ts) = length (load_kw ts) \<and>
      column_ok (length (load_kw ts)) (import_price_gbp_per_kwh ts) \<and>
      column_ok (length (load_kw ts)) (export_price_gbp_per_kwh ts))"

text \<open>One row of the five output columns of a dispatch frame (\<open>OUTPUT_COLUMNS\<close>).\<close>

record dispatch_row =
  grid_import_kw :: real
  grid_export_kw :: real
  battery_charge_kw :: real
  battery_discharge_kw :: real
  soc_kwh :: real

section \<open>core/baseline.py\<close>

text \<open>
  Python's \<open>a / b\<close> on two Python floats raises \<open>ZeroDivisionError\<close> when \<open>b\<close> is
  zero.
\<close>

definition py_div :: "real \<Rightarrow> real \<Rightarrow> error + real" where
  "py_div a b = (if b = 0 then Inl ZeroDivisionError else Inr (a / b))"

text \<open>
  \<open>min(limit, num / den)\<close> as the baseline computes it, for frames of numeric columns.
  At the first step \<open>soc\<close>, and so \<open>num\<close>, is a Python float, and a zero \<open>den\<close> raises.
  At the later steps \<open>soc\<close> is read back from the frame as a numpy float64, and
  \<open>num / 0.0\<close> is \<open>inf\<close>, \<open>nan\<close> or \<open>-inf\<close> (with a warning, no exception):
  \<open>min(limit, inf)\<close> and \<open>min(limit, nan)\<close> are \<open>limit\<close>, since Python's \<open>min\<close> keeps
  its first argument unless the second is smaller, and \<open>min(limit, -inf)\<close> is \<open>-inf\<close>.
\<close>

definition min_limit_quotient :: "bool \<Rightarrow> real \<Rightarrow> real \<Rightarrow> real \<Rightarrow> error + real" where
  "min_limit_quotient python_float limit num den =
     (if den \<noteq> 0 then Inr (min limit (num / den))
      else if python_float then Inl ZeroDivisionError
      else if num < 0 then Inl NonFiniteFloat
      else Inr limit)"

text \<open>
  Lines 61 to 92 of the loop body: the battery flows and the grid residual, as
  \<open>(charge_kw, discharge_kw, grid_import_kw, grid_export_kw)\<close>. \<open>prev_soc\<close> is \<open>None\<close>
  at \<open>i == 0\<close> and the stored SOC of row \<open>i - 1\<close> afterwards.
\<close>

definition baseline_flows ::
  "BatteryConfig \<Rightarrow> real \<Rightarrow> real option \<Rightarrow> real \<Rightarrow> real \<Rightarrow> real
     \<Rightarrow> error + (real \<times> real \<times> real \<times> real)" where
  "baseline_flows b timestep_hours prev_soc soc load pv =
     (let net = pv - load in
      if net > 0 then
        (case min_limit_quotient (prev_soc = None) (max_charge_kw b)
                (max_soc_frac b * capacity_kwh b - soc)
                (timestep_hours * charge_efficiency b) of
           Inl e \<Rightarrow> Inl e
         | Inr max_charge \<Rightarrow>
             let charge_kw = min net max_charge;
                 remaining_excess = net - charge_kw
             in Inr (charge_kw, 0, 0, remaining_excess))
      else
        (let deficit = - net in
         case py_div timestep_hours (discharge_efficiency b) of
           Inl e \<Rightarrow> Inl e
         | Inr hours_per_efficiency \<Rightarrow>
             (case min_limit_quotient (prev_soc = None) (max_discharge_kw b)
                     (soc - min_soc_frac b * capacity_kwh b) hours_per_efficiency of
                Inl e \<Rightarrow> Inl e
              | Inr max_discharge \<Rightarrow>
                  let discharge_kw = min deficit max_discharge;
                      remaining_deficit = deficit - discharge_kw
                  in Inr (0, discharge_kw, remaining_deficit, 0))))"

text \<open>Lines 94 to 99: \<open>min(flow, cap)\<close> when the cap is not \<open>None\<close>.\<close>

definition apply_grid_limit :: "real option \<Rightarrow> real \<Rightarrow> real" where
  "apply_grid_limit cap flow = (case cap of None \<Rightarrow> flow | Some c \<Rightarrow> min flow c)"

text \<open>
  Lines 101 to 112: the SOC update and its clamp. \<open>discharge_kw * timestep_hours /
  discharge_efficiency\<close> divides Python floats in the surplus branch (\<open>discharge_kw\<close> is
  the literal \<open>0.0\<close>), so a zero discharge efficiency raises there; in the deficit branch
  the efficiency is already known to be non-zero.
\<close>

definition update_soc :: "BatteryConfig \<Rightarrow> real \<Rightarrow> real \<Rightarrow> real \<Rightarrow> real \<Rightarrow> error + real" where
  "update_soc b timestep_hours soc charge_kw discharge_kw =
     (case py_div (discharge_kw * timestep_hours) (discharge_efficiency b) of
        Inl e \<Rightarrow> Inl e
      | Inr discharged \<Rightarrow>
          let new_soc = soc + charge_kw * timestep_hours * charge_efficiency b - discharged
          in Inr (max (min_soc_frac b * capacity_kwh b)
                      (min (max_soc_frac b * capacity_kwh b) new_soc)))"

text \<open>One iteration of the loop, for the row \<open>(load, pv)\<close>.\<close>

definition baseline_step ::
  "SiteConfig \<Rightarrow> real \<Rightarrow> real option \<Rightarrow> real \<times> real \<Rightarrow> error + dispatch_row" where
  "baseline_step site_config timestep_hours prev_soc row =
     (let b = battery site_config;
          soc = (case prev_soc of
                   None \<Rightarrow> initial_soc_frac b * capacity_kwh b
                 | Some s \<Rightarrow> s)
      in case baseline_flows b timestep_hours prev_soc soc (fst row) (snd row) of
           Inl e \<Rightarrow> Inl e
         | Inr (charge_kw, discharge_kw, import_kw, export_kw) \<Rightarrow>
             (case update_soc b timestep_hours soc charge_kw discharge_kw of
                Inl e \<Rightarrow> Inl e
              | Inr new_soc \<Rightarrow>
                  Inr \<lparr> grid_import_kw = apply_grid_limit (max_grid_import_kw site_config) import_kw,
                        grid_export_kw = apply_grid_limit (max_grid_export_kw site_config) export_kw,
                        battery_charge_kw = charge_kw,
                        battery_discharge_kw = discharge_kw,
                        soc_kwh = new_soc \<rparr>))"

text \<open>The loop over the rows, in order; each row's SOC is the next row's \<open>prev_soc\<close>.\<close>

fun baseline_loop ::
  "SiteConfig \<Rightarrow> real \<Rightarrow> real option \<Rightarrow> (real \<times> real) list \<Rightarrow> error + dispatch_row list" where
  "baseline_loop site_config timestep_hours prev_soc [] = Inr []"
| "baseline_loop site_config timestep_hours prev_soc (row # rows) =
     (case baseline_step site_config timestep_hours prev_soc row of
        Inl e \<Rightarrow> Inl e
      | Inr d \<Rightarrow>
          (case baseline_loop site_config timestep_hours (Some (soc_kwh d)) rows of
             Inl e \<Rightarrow> Inl e
           | Inr ds \<Rightarrow> Inr (d # ds)))"

definition compute_baseline_dispatch ::
  "timeseries \<Rightarrow> SiteConfig \<Rightarrow> real \<Rightarrow> error + dispatch_row list" where
  "compute_baseline_dispatch ts site_config timestep_hours =
     baseline_loop site_config timestep_hours None (zip (load_kw ts) (pv_kw ts))"

section \<open>core/validate.py\<close>

text \<open>
  \<open>power_cols\<close>: the four power columns, each with the accessor that reads it from a row.
\<close>

definition power_cols :: "(string \<times> (dispatch_row \<Rightarrow> real)) list" where
  "power_cols =
     [(COL_GRID_IMPORT_KW, grid_import_kw), (COL_GRID_EXPORT_KW, grid_export_kw),
      (COL_BATTERY_CHARGE_KW, battery_charge_kw),
      (COL_BATTERY_DISCHARGE_KW, battery_discharge_kw)]"

text \<open>
  Lines 83 to 91, \<open>for col in power_cols: if (df[col] < -NUMERICAL_TOLERANCE).any(): raise\<close>:
  the first column, in the order of the list, that holds a value below the negative
  tolerance is the one named.
\<close>

fun check_non_negative ::
  "(string \<times> (dispatch_row \<Rightarrow> real)) list \<Rightarrow> dispatch_row list \<Rightarrow> error + unit" where
  "check_non_negative [] df = Inr ()"
| "check_non_negative ((col, get) # cols) df =
     (if list_ex (\<lambda>r. get r < - NUMERICAL_TOLERANCE) df
      then Inl (ValidationError (HasNegativeValues col))
      else check_non_negative cols df)"

text \<open>Lines 112 to 119: a grid limit is checked only when it is not \<open>None\<close>.\<close>

definition check_grid_limit ::
  "real option \<Rightarrow> (dispatch_row \<Rightarrow> real) \<Rightarrow> (real \<Rightarrow> validation_message)
     \<Rightarrow> dispatch_row list \<Rightarrow> error + unit" where
  "check_grid_limit cap get msg df =
     (case cap of
        None \<Rightarrow> Inr ()
      | Some c \<Rightarrow>
          if list_ex (\<lambda>r. get r > c + NUMERICAL_TOLERANCE) df
          then Inl (ValidationError (msg c)) else Inr ())"

definition validate_dispatch_result :: "dispatch_row list \<Rightarrow> SiteConfig \<Rightarrow> error + unit" where
  "validate_dispatch_result df site_config =
     (case check_non_negative power_cols df of
        Inl e \<Rightarrow> Inl e
      | Inr _ \<Rightarrow>
          let b = battery site_config;
              min_soc = min_soc_frac b * capacity_kwh b;
              max_soc = max_soc_frac b * capacity_kwh b
          in if list_ex (\<lambda>r. soc_kwh r < min_soc - NUMERICAL_TOLERANCE) df
               then Inl (ValidationError (SocBelowMinimum min_soc))
             else if list_ex (\<lambda>r. soc_kwh r > max_soc + NUMERICAL_TOLERANCE) df
               then Inl (ValidationError (SocAboveMaximum max_soc))
             else if list_ex (\<lambda>r. battery_charge_kw r > max_charge_kw b + NUMERICAL_TOLERANCE) df
               then Inl (ValidationError (ChargePowerExceedsLimit (max_charge_kw b)))
             else if list_ex (\<lambda>r. battery_discharge_kw r > max_discharge_kw b + NUMERICAL_TOLERANCE) df
               then Inl (ValidationError (DischargePowerExceedsLimit (max_discharge_kw b)))
             else
               (case check_grid_limit (max_grid_import_kw site_config) grid_import_kw
                       GridImportExceedsLimit df of
                  Inl e \<Rightarrow> Inl e
                | Inr _ \<Rightarrow>
                    check_grid_limit (max_grid_export_kw site_config) grid_export_kw
                      GridExportExceedsLimit df))"

section \<open>core/metrics.py\<close>

text \<open>
  The frames that the metrics read carry the two price columns beside the dispatch
  columns (\<open>runners/backtest.py\<close> merges them in).
\<close>

record priced_row = dispatch_row +
  price_import :: real
  price_export :: real

text \<open>
  A value that can be \<open>nan\<close> is a \<open>real option\<close>, with \<open>None\<close> for \<open>nan\<close> (or
  \<open>inf\<close>): pandas' \<open>Series.max()\<close> of an empty column is \<open>nan\<close>, and arithmetic on
  \<open>nan\<close> gives \<open>nan\<close>. The column sums are finite: the sum of an empty column is 0.
\<close>

fun series_max :: "real list \<Rightarrow> real option" where
  "series_max [] = None"
| "series_max (x # xs) = Some (fold max xs x)"

definition nan_minus :: "real option \<Rightarrow> real option \<Rightarrow> real option" where
  "nan_minus a b =
     (case a of None \<Rightarrow> None
      | Some x \<Rightarrow> (case b of None \<Rightarrow> None | Some y \<Rightarrow> Some (x - y)))"

definition compute_cost ::
  "priced_row list \<Rightarrow> SiteConfig \<Rightarrow> RunConfig \<Rightarrow> real \<Rightarrow> real option" where
  "compute_cost dispatch site_config run_config timestep_hours =
     (let import_cost =
            sum_list (map (\<lambda>r. grid_import_kw r * price_import r * timestep_hours) dispatch);
          export_revenue =
            sum_list (map (\<lambda>r. grid_export_kw r * price_export r * timestep_hours) dispatch);
          demand_charge =
            (if demand_charge_enabled (tariff run_config)
             then map_option (\<lambda>peak_import_kw.
                      peak_import_kw * demand_charge_gbp_per_kw (tariff run_config))
                    (series_max (map grid_import_kw dispatch))
             else Some 0);
          battery_throughput_kwh =
            sum_list (map (\<lambda>r. (battery_charge_kw r + battery_discharge_kw r) * timestep_hours)
                        dispatch);
          degradation_cost =
            battery_throughput_kwh * degradation_cost_gbp_per_kwh (battery site_config)
      in map_option (\<lambda>dc. import_cost - export_revenue + dc + degradation_cost) demand_charge)"

record metrics =
  optimal_cost_gbp :: "real option"
  baseline_cost_gbp :: "real option"
  savings_gbp :: "real option"
  savings_pct :: "real option"
  optimal_peak_import_kw :: "real option"
  baseline_peak_import_kw :: "real option"
  peak_reduction_kw :: "real option"
  battery_throughput_kwh :: real
  battery_cycles :: "real option"
  total_import_kwh :: real
  total_export_kwh :: real

text \<open>
  \<open>savings_pct\<close>: \<open>baseline_cost != 0\<close> is true of \<open>nan\<close>, and then the quotient is
  \<open>nan\<close>. \<open>battery_cycles\<close> divides a numpy float by \<open>2 * capacity_kwh\<close>, which does not
  raise on zero but gives \<open>inf\<close> or \<open>nan\<close>.
\<close>

definition compute_metrics ::
  "priced_row list \<Rightarrow> priced_row list \<Rightarrow> SiteConfig \<Rightarrow> RunConfig \<Rightarrow> real \<Rightarrow> metrics" where
  "compute_metrics optimal_dispatch baseline_dispatch site_config run_config timestep_hours =
     (let optimal_cost = compute_cost optimal_dispatch site_config run_config timestep_hours;
          baseline_cost = compute_cost baseline_dispatch site_config run_config timestep_hours;
          savings = nan_minus baseline_cost optimal_cost;
          pct = (case baseline_cost of
                   None \<Rightarrow> None
                 | Some c \<Rightarrow>
                     if c \<noteq> 0 then map_option (\<lambda>sv. sv / c * 100) savings else Some 0);
          optimal_peak_kw = series_max (map grid_import_kw optimal_dispatch);
          baseline_peak_kw = series_max (map grid_import_kw baseline_dispatch);
          throughput =
            sum_list (map (\<lambda>r. (battery_charge_kw r + battery_discharge_kw r) * timestep_hours)
                        optimal_dispatch)
      in \<lparr> optimal_cost_gbp = optimal_cost,
           baseline_cost_gbp = baseline_cost,
           savings_gbp = savings,
           savings_pct = pct,
           optimal_peak_import_kw = optimal_peak_kw,
           baseline_peak_import_kw = baseline_peak_kw,
           peak_reduction_kw = nan_minus baseline_peak_kw optimal_peak_kw,
           battery_throughput_kwh = throughput,
           battery_cycles =
             (if 2 * capacity_kwh (battery site_config) = 0 then None
              else Some (throughput / (2 * capacity_kwh (battery site_config)))),
           total_import_kwh =
             sum_list (map (\<lambda>r. grid_import_kw r * timestep_hours) optimal_dispatch),
           total_export_kwh =
             sum_list (map (\<lambda>r. grid_export_kw r * timestep_hours) optimal_dispatch) \<rparr>)"

section \<open>The linear program (linopy)\<close>

text \<open>
  linopy is outside the repository. Of a model the development keeps what
  \<open>build_model\<close> hands to it: the declared variables, the named constraints, and the
  objective with its sense. A linear expression is its list of terms
  \<open>(coefficient, variable)\<close> and its constant.
\<close>

datatype variable =
    GridImport nat
  | GridExport nat
  | BatteryCharge nat
  | BatteryDischarge nat
  | Soc nat
  | PeakDemand

type_synonym linear_expr = "(real \<times> variable) list \<times> real"

definition var_expr :: "variable \<Rightarrow> linear_expr" where
  "var_expr v = ([(1, v)], 0)"

definition const_expr :: "real \<Rightarrow> linear_expr" where
  "const_expr c = ([], c)"

definition scale_expr :: "real \<Rightarrow> linear_expr \<Rightarrow> linear_expr" where
  "scale_expr c e = (map (\<lambda>(a, v). (c * a, v)) (fst e), c * snd e)"

definition add_expr :: "linear_expr \<Rightarrow> linear_expr \<Rightarrow> linear_expr" where
  "add_expr e f = (fst e @ fst f, snd e + snd f)"

definition sub_expr :: "linear_expr \<Rightarrow> linear_expr \<Rightarrow> linear_expr" where
  "sub_expr e f = add_expr e (scale_expr (- 1) f)"

text \<open>Python's \<open>sum(...)\<close> of expressions: \<open>((0 + e0) + e1) + ...\<close>.\<close>

definition sum_expr :: "linear_expr list \<Rightarrow> linear_expr" where
  "sum_expr es = foldl add_expr (const_expr 0) es"

text \<open>The value of an expression under an assignment of the variables.\<close>

definition eval_expr :: "(variable \<Rightarrow> real) \<Rightarrow> linear_expr \<Rightarrow> real" where
  "eval_expr x e = sum_list (map (\<lambda>(a, v). a * x v) (fst e)) + snd e"

datatype comparison = Equal | LessEq | GreaterEq

text \<open>A constraint name \<open>f"site_balance_{t}"\<close> is kept as the pair of its prefix and \<open>t\<close>.\<close>

record linear_constraint =
  con_name :: "string \<times> nat"
  con_lhs :: linear_expr
  con_sign :: comparison
  con_rhs :: linear_expr

text \<open>
  \<open>add_variables(lower=0, coords=[T], name=...)\<close> declares an array of \<open>len(T)\<close>
  variables (\<open>var_size = Some (len T)\<close>); without \<open>coords\<close>, one scalar variable.
\<close>

record variable_decl =
  var_name :: string
  var_lower :: real
  var_size :: "nat option"

record lp_model =
  variables :: "variable_decl list"
  constraints :: "linear_constraint list"
  objective :: "linear_expr option"
  objective_sense :: "string option"

definition new_model :: lp_model where
  "new_model = \<lparr> variables = [], constraints = [], objective = None, objective_sense = None \<rparr>"

definition add_variables :: "lp_model \<Rightarrow> string \<Rightarrow> nat option \<Rightarrow> lp_model" where
  "add_variables m name coords =
     m \<lparr> variables := variables m @ [\<lparr> var_name = name, var_lower = 0, var_size = coords \<rparr>] \<rparr>"

definition add_constraints ::
  "lp_model \<Rightarrow> string \<times> nat \<Rightarrow> linear_expr \<Rightarrow> comparison \<Rightarrow> linear_expr \<Rightarrow> lp_model" where
  "add_constraints m name lhs sign rhs =
     m \<lparr> constraints := constraints m @
           [\<lparr> con_name = name, con_lhs = lhs, con_sign = sign, con_rhs = rhs \<rparr>] \<rparr>"

section \<open>model/constraints.py\<close>

definition add_site_balance :: "lp_model \<Rightarrow> nat \<Rightarrow> real list \<Rightarrow> real list \<Rightarrow> lp_model" where
  "add_site_balance m T load pv =
     fold (\<lambda>t m.
        add_constraints m (''site_balance_'', t)
          (add_expr (add_expr (const_expr (load ! t)) (var_expr (BatteryCharge t)))
                    (var_expr (GridExport t)))
          Equal
          (add_expr (add_expr (const_expr (pv ! t)) (var_expr (BatteryDischarge t)))
                    (var_expr (GridImport t))))
       [0 ..< T] m"

text \<open>
  The SOC dynamics divide the scalar expression \<open>battery_discharge[t] * timestep_hours\<close>
  by the discharge efficiency; linopy divides a scalar expression by multiplying it with
  \<open>1 / other\<close>, which raises \<open>ZeroDivisionError\<close> on a zero efficiency.
\<close>

definition soc_dynamics_constraint ::
  "lp_model \<Rightarrow> BatteryConfig \<Rightarrow> real \<Rightarrow> nat \<Rightarrow> error + lp_model" where
  "soc_dynamics_constraint m b timestep_hours t =
     (if discharge_efficiency b = 0 then Inl ZeroDivisionError
      else
        let soc_prev = (if t = 0 then const_expr (initial_soc_frac b * capacity_kwh b)
                        else var_expr (Soc (t - 1)))
        in Inr (add_constraints m (''soc_dynamics_'', t)
                  (var_expr (Soc t))
                  Equal
                  (sub_expr
                     (add_expr soc_prev
                        (scale_expr timestep_hours
                           (scale_expr (charge_efficiency b) (var_expr (BatteryCharge t)))))
                     (scale_expr (1 / discharge_efficiency b)
                        (scale_expr timestep_hours (var_expr (BatteryDischarge t)))))))"

fun soc_dynamics_loop ::
  "lp_model \<Rightarrow> BatteryConfig \<Rightarrow> real \<Rightarrow> nat list \<Rightarrow> error + lp_model" where
  "soc_dynamics_loop m b timestep_hours [] = Inr m"
| "soc_dynamics_loop m b timestep_hours (t # ts) =
     (case soc_dynamics_constraint m b timestep_hours t of
        Inl e \<Rightarrow> Inl e
      | Inr m' \<Rightarrow> soc_dynamics_loop m' b timestep_hours ts)"

definition add_battery_constraints ::
  "lp_model \<Rightarrow> nat \<Rightarrow> BatteryConfig \<Rightarrow> real \<Rightarrow> error + lp_model" where
  "add_battery_constraints m T b timestep_hours =
     (let min_soc = min_soc_frac b * capacity_kwh b;
          max_soc = max_soc_frac b * capacity_kwh b;
          m = fold (\<lambda>t m.
                add_constraints
                  (add_constraints m (''soc_min_'', t)
                     (var_expr (Soc t)) GreaterEq (const_expr min_soc))
                  (''soc_max_'', t) (var_expr (Soc t)) LessEq (const_expr max_soc))
              [0 ..< T] m;
          m = fold (\<lambda>t m.
                add_constraints
                  (add_constraints m (''charge_limit_'', t)
                     (var_expr (BatteryCharge t)) LessEq (const_expr (max_charge_kw b)))
                  (''discharge_limit_'', t)
                  (var_expr (BatteryDischarge t)) LessEq (const_expr (max_discharge_kw b)))
              [0 ..< T] m
      in soc_dynamics_loop m b timestep_hours [0 ..< T])"

definition add_grid_constraints :: "lp_model \<Rightarrow> nat \<Rightarrow> SiteConfig \<Rightarrow> lp_model" where
  "add_grid_constraints m T site =
     (let m = (case max_grid_import_kw site of
                 None \<Rightarrow> m
               | Some cap \<Rightarrow>
                   fold (\<lambda>t m. add_constraints m (''grid_import_limit_'', t)
                           (var_expr (GridImport t)) LessEq (const_expr cap))
                     [0 ..< T] m)
      in (case max_grid_export_kw site of
            None \<Rightarrow> m
          | Some cap \<Rightarrow>
              fold (\<lambda>t m. add_constraints m (''grid_export_limit_'', t)
                      (var_expr (GridExport t)) LessEq (const_expr cap))
                [0 ..< T] m))"

section \<open>model/objective.py\<close>

text \<open>
  The local \<open>objective\<close> of \<open>add_objective\<close>; \<open>peak_demand\<close> is \<open>True\<close> when the
  peak variable is passed (\<open>is not None\<close>). Over an empty range of steps Python's
  \<open>sum\<close> is the integer 0, kept here as the expression without terms.
\<close>

definition objective_expr ::
  "nat \<Rightarrow> real list \<Rightarrow> real list \<Rightarrow> real \<Rightarrow> real \<Rightarrow> real \<Rightarrow> bool \<Rightarrow> linear_expr" where
  "objective_expr T import_price export_price timestep_hours
       degradation_cost_per_kwh demand_charge_per_kw peak_demand =
     (let import_cost =
            sum_expr (map (\<lambda>t. scale_expr timestep_hours
                             (scale_expr (import_price ! t) (var_expr (GridImport t))))
                        [0 ..< T]);
          export_revenue =
            sum_expr (map (\<lambda>t. scale_expr timestep_hours
                             (scale_expr (export_price ! t) (var_expr (GridExport t))))
                        [0 ..< T]);
          degradation_cost =
            sum_expr (map (\<lambda>t. scale_expr degradation_cost_per_kwh
                             (scale_expr timestep_hours
                                (add_expr (var_expr (BatteryCharge t))
                                          (var_expr (BatteryDischarge t)))))
                        [0 ..< T]);
          total = add_expr (sub_expr import_cost export_revenue) degradation_cost
      in if peak_demand
         then add_expr total (scale_expr demand_charge_per_kw (var_expr PeakDemand))
         else total)"

definition add_objective ::
  "lp_model \<Rightarrow> nat \<Rightarrow> real list \<Rightarrow> real list \<Rightarrow> real \<Rightarrow> real \<Rightarrow> real \<Rightarrow> bool \<Rightarrow> lp_model" where
  "add_objective m T import_price export_price timestep_hours
       degradation_cost_per_kwh demand_charge_per_kw peak_demand =
     m \<lparr> objective :=
           Some (objective_expr T import_price export_price timestep_hours
                   degradation_cost_per_kwh demand_charge_per_kw peak_demand),
         objective_sense := Some ''min'' \<rparr>"

section \<open>model/build.py\<close>

text \<open>
  Lines 30 to 43, once for each direction: the timeseries column if the frame has it,
  else the flat tariff price repeated \<open>len(ts)\<close> times, else \<open>ValueError\<close>.
\<close>

definition price_series ::
  "real list option \<Rightarrow> real option \<Rightarrow> nat \<Rightarrow> string \<Rightarrow> error + real list" where
  "price_series column flat_price n message =
     (case column of
        Some values \<Rightarrow> Inr values
      | None \<Rightarrow>
          (case flat_price of
             Some price \<Rightarrow> Inr (replicate n price)
           | None \<Rightarrow> Inl (ValueError message)))"

definition build_model :: "SiteConfig \<Rightarrow> RunConfig \<Rightarrow> timeseries \<Rightarrow> error + lp_model" where
  "build_model site run ts =
     (let T = length (load_kw ts);
          timestep_hours = real_of_int (timestep_minutes run) / 60
      in case price_series (import_price_gbp_per_kwh ts)
                (flat_import_price_gbp_per_kwh (tariff run)) T
                ''No import price provided in timeseries or tariff config'' of
           Inl e \<Rightarrow> Inl e
         | Inr import_price \<Rightarrow>
        (case price_series (export_price_gbp_per_kwh ts)
                (flat_export_price_gbp_per_kwh (tariff run)) T
                ''No export price provided in timeseries or tariff config'' of
           Inl e \<Rightarrow> Inl e
         | Inr export_price \<Rightarrow>
        (let m = add_variables new_model ''grid_import_kw'' (Some T);
             m = add_variables m ''grid_export_kw'' (Some T);
             m = add_variables m ''battery_charge_kw'' (Some T);
             m = add_variables m ''battery_discharge_kw'' (Some T);
             m = add_variables m ''soc_kwh'' (Some T);
             m = add_site_balance m T (load_kw ts) (pv_kw ts)
         in (case add_battery_constraints m T (battery site) timestep_hours of
              Inl e \<Rightarrow> Inl e
            | Inr m \<Rightarrow>
                (let m = add_grid_constraints m T site;
                     m = (if demand_charge_enabled (tariff run)
                          then fold (\<lambda>t m. add_constraints m (''peak_ge_import_'', t)
                                       (var_expr PeakDemand) GreaterEq (var_expr (GridImport t)))
                                 [0 ..< T] (add_variables m ''peak_demand_kw'' None)
                          else m)
                 in Inr (add_objective m T import_price export_price timestep_hours
                           (degradation_cost_gbp_per_kwh (battery site))
                           (if demand_charge_enabled (tariff run)
                            then demand_charge_gbp_per_kw (tariff run) else 0)
                           (demand_charge_enabled (tariff run))))))))"

section \<open>model/solve.py\<close>

record DispatchResult =
  objective_value_gbp :: real
  solve_time_seconds :: real
  solver_status :: string
  solver_termination_condition :: string
  gap :: "real option"

text \<open>
  What \<open>model.solve(...)\<close> leaves in the model when it returns: the status, the
  termination condition (if the attribute exists), the five solution arrays and the
  objective value. The solver itself (HiGHS) is outside the repository: \<open>model.solve\<close>
  either raises an exception with a message or returns.
\<close>

record solved_model =
  status :: string
  termination_condition :: "string option"
  solution_grid_import_kw :: "real list"
  solution_grid_export_kw :: "real list"
  solution_battery_charge_kw :: "real list"
  solution_battery_discharge_kw :: "real list"
  solution_soc_kwh :: "real list"
  objective_value :: real

datatype solver_outcome = SolverRaises string | SolverReturns solved_model

text \<open>
  Lines 50 to 56: the five columns over the index \<open>ts_index\<close>; pandas raises
  \<open>ValueError\<close> when an assigned array is not as long as the index.
\<close>

definition dispatch_frame :: "nat \<Rightarrow> solved_model \<Rightarrow> error + dispatch_row list" where
  "dispatch_frame n m =
     (if length (solution_grid_import_kw m) = n \<and> length (solution_grid_export_kw m) = n \<and>
         length (solution_battery_charge_kw m) = n \<and>
         length (solution_battery_discharge_kw m) = n \<and> length (solution_soc_kwh m) = n
      then Inr (map (\<lambda>t. \<lparr> grid_import_kw = solution_grid_import_kw m ! t,
                              grid_export_kw = solution_grid_export_kw m ! t,
                              battery_charge_kw = solution_battery_charge_kw m ! t,
                              battery_discharge_kw = solution_battery_discharge_kw m ! t,
                              soc_kwh = solution_soc_kwh m ! t \<rparr>) [0 ..< n])
      else Inl (ValueError ''Length of values does not match length of index''))"

text \<open>
  \<open>solve_model\<close>: \<open>solver\<close> is \<open>model.solve\<close> as a function of the time limit,
  \<open>n\<close> the length of \<open>ts_index\<close>, \<open>solve_time\<close> the measured wall-clock time.
\<close>

definition solve_model ::
  "(real \<Rightarrow> solver_outcome) \<Rightarrow> RunConfig \<Rightarrow> nat \<Rightarrow> real
     \<Rightarrow> error + (dispatch_row list \<times> DispatchResult)" where
  "solve_model solver run_config n solve_time =
     (case solver (solver_time_limit_seconds run_config) of
        SolverRaises e \<Rightarrow> Inl (RuntimeError (''Solver failed: '' @ e))
      | SolverReturns m \<Rightarrow>
          if status m \<noteq> ''ok''
          then Inl (RuntimeError (''Solver returned non-optimal status: '' @ status m))
          else
            (case dispatch_frame n m of
               Inl e \<Rightarrow> Inl e
             | Inr dispatch_df \<Rightarrow>
                 Inr (dispatch_df,
                      \<lparr> objective_value_gbp = objective_value m,
                        solve_time_seconds = solve_time,
                        solver_status = status m,
                        solver_termination_condition =
                          (case termination_condition m of
                             Some c \<Rightarrow> c | None \<Rightarrow> ''optimal''),
                        gap = None \<rparr>)))"

text \<open>The Python class of an exception (\<open>NonFiniteFloat\<close> is none).\<close>

fun exception_class :: "error \<Rightarrow> string" where
  "exception_class ZeroDivisionError = ''ZeroDivisionError''"
| "exception_class (ValueError _) = ''ValueError''"
| "exception_class (RuntimeError _) = ''RuntimeError''"
| "exception_class (ValidationError _) = ''ValidationError''"
| "exception_class NonFiniteFloat = []"

section \<open>multi_objective_bess.py\<close>

record ParetoPoint =
  energy_cost :: real
  peak_demand_kw :: real
  total_cost :: real
  dispatch :: "real list list option"

text \<open>
  Python's \<open>min(xs, key=f)\<close> and \<open>max(xs, key=f)\<close>: the first element whose key is
  smallest (largest), \<open>ValueError\<close> on an empty sequence.
\<close>

fun py_min_by :: "('a \<Rightarrow> real) \<Rightarrow> 'a list \<Rightarrow> error + 'a" where
  "py_min_by key [] = Inl (ValueError ''min() arg is an empty sequence'')"
| "py_min_by key (x # xs) =
     Inr (fold (\<lambda>item best. if key item < key best then item else best) xs x)"

fun py_max_by :: "('a \<Rightarrow> real) \<Rightarrow> 'a list \<Rightarrow> error + 'a" where
  "py_max_by key [] = Inl (ValueError ''max() arg is an empty sequence'')"
| "py_max_by key (x # xs) =
     Inr (fold (\<lambda>item best. if key item > key best then item else best) xs x)"

text \<open>
  \<open>score\<close> of \<open>select_operating_point\<close>. The two divisors are at least \<open>1e-9\<close> when
  \<open>e_min \<le> e_max\<close> and \<open>p_min \<le> p_max\<close>, so the division never fails.
\<close>

definition score :: "real \<Rightarrow> real \<Rightarrow> real \<Rightarrow> real \<Rightarrow> real \<Rightarrow> ParetoPoint \<Rightarrow> real" where
  "score preference e_min e_max p_min p_max pt =
     (let e_norm = (energy_cost pt - e_min) / (e_max - e_min + 1 / 1000000000);
          p_norm = (peak_demand_kw pt - p_min) / (p_max - p_min + 1 / 1000000000)
      in (1 - preference) * e_norm + preference * p_norm)"

definition select_operating_point :: "ParetoPoint list \<Rightarrow> real \<Rightarrow> error + ParetoPoint" where
  "select_operating_point front preference =
     (if preference = 1 / 2 then py_min_by total_cost front
      else
        case py_min_by id (map energy_cost front) of
          Inl e \<Rightarrow> Inl e
        | Inr e_min \<Rightarrow>
        (case py_max_by id (map energy_cost front) of
          Inl e \<Rightarrow> Inl e
        | Inr e_max \<Rightarrow>
        (case py_min_by id (map peak_demand_kw front) of
          Inl e \<Rightarrow> Inl e
        | Inr p_min \<Rightarrow>
        (case py_max_by id (map peak_demand_kw front) of
          Inl e \<Rightarrow> Inl e
        | Inr p_max \<Rightarrow> py_min_by (score preference e_min e_max p_min p_max) front))))"

text \<open>
  \<open>compute_pareto_front\<close>. The LP solve of \<open>solve_with_peak_limit\<close> (scipy's \<open>linprog\<close>)
  is outside the repository: \<open>solve\<close> stands for
  \<open>solve_with_peak_limit(cfg, load, pv, import_price, export_price, \<cdot>)\<close>, a function of
  the peak limit that returns a point or \<open>None\<close>.
\<close>

text \<open>Lines 180 to 185: the binary search, \<open>n\<close> iterations left.\<close>

fun bisect_peak ::
  "nat \<Rightarrow> (real \<Rightarrow> ParetoPoint option) \<Rightarrow> real \<Rightarrow> real \<Rightarrow> real \<times> real" where
  "bisect_peak 0 solve peak_min peak_max = (peak_min, peak_max)"
| "bisect_peak (Suc n) solve peak_min peak_max =
     (let mid = (peak_min + peak_max) / 2
      in if solve mid \<noteq> None then bisect_peak n solve peak_min mid
         else bisect_peak n solve mid peak_max)"

text \<open>\<open>np.linspace(start, stop, num)\<close>; a negative \<open>num\<close> raises \<open>ValueError\<close>.\<close>

definition linspace :: "real \<Rightarrow> real \<Rightarrow> int \<Rightarrow> error + real list" where
  "linspace start stop num =
     (if num < 0 then Inl (ValueError ''Number of samples must be non-negative'')
      else if num = 1 then Inr [start]
      else Inr (map (\<lambda>i. start + real i * ((stop - start) / real_of_int (num - 1)))
                  [0 ..< nat num]))"

text \<open>
  Lines 197 to 200, the body of the sweep: \<open>if point and (not front or
  abs(point.energy_cost - front[-1].energy_cost) > 1e-6): front.append(point)\<close>.
\<close>

definition sweep_step :: "ParetoPoint list \<Rightarrow> ParetoPoint option \<Rightarrow> ParetoPoint list" where
  "sweep_step front point =
     (case point of
        None \<Rightarrow> front
      | Some p \<Rightarrow>
          if front = [] \<or> \<bar>energy_cost p - energy_cost (last front)\<bar> > 1 / 1000000
          then front @ [p] else front)"

fun sweep ::
  "(real \<Rightarrow> ParetoPoint option) \<Rightarrow> real list \<Rightarrow> ParetoPoint list \<Rightarrow> ParetoPoint list" where
  "sweep solve [] front = front"
| "sweep solve (eps # epsilons) front = sweep solve epsilons (sweep_step front (solve eps))"

text \<open>
  \<open>load\<close> and \<open>pv\<close> are arrays of one shape; \<open>np.max\<close> of an empty array raises
  \<open>ValueError\<close>.
\<close>

definition compute_pareto_front ::
  "(real \<Rightarrow> ParetoPoint option) \<Rightarrow> real list \<Rightarrow> real list \<Rightarrow> int \<Rightarrow> error + ParetoPoint list" where
  "compute_pareto_front solve load pv n_points =
     (let net_load = map (\<lambda>(l, g). l - g) (zip load pv)
      in case py_max_by id net_load of
           Inl e \<Rightarrow> Inl e
         | Inr net_max \<Rightarrow>
             (let peak_max = max net_max (1 / 10);
                  peak_min = snd (bisect_peak 20 solve 0 peak_max);
                  peak_max = (case solve 1000 of
                                None \<Rightarrow> peak_min
                              | Some unconstrained \<Rightarrow>
                                  max (peak_demand_kw unconstrained * (11 / 10))
                                      (peak_min * (3 / 2)))
              in (case linspace peak_min peak_max n_points of
                    Inl e \<Rightarrow> Inl e
                  | Inr epsilons \<Rightarrow> Inr (sweep solve epsilons []))))"

section \<open>Properties of a dispatch (spec, sections 3 and 8)\<close>

subsection \<open>Well-formed input of the baseline\<close>

text \<open>The well-formedness of the baseline's input that the claims assume.\<close>

definition soc_limits_ok :: "BatteryConfig \<Rightarrow> bool" where
  "soc_limits_ok b =
     (min_soc_frac b < max_soc_frac b \<and>
      min_soc_frac b \<le> initial_soc_frac b \<and> initial_soc_frac b \<le> max_soc_frac b)"

definition baseline_input_ok :: "timeseries \<Rightarrow> SiteConfig \<Rightarrow> real \<Rightarrow> bool" where
  "baseline_input_ok ts site_config timestep_hours =
     (timeseries_ok ts \<and> list_all (\<lambda>x. 0 \<le> x) (load_kw ts) \<and> list_all (\<lambda>x. 0 \<le> x) (pv_kw ts) \<and>
      SiteConfig_fields_ok site_config \<and> soc_limits_ok (battery site_config) \<and>
      0 < timestep_hours)"

subsection \<open>Invariants of a dispatch\<close>

definition start_soc :: "BatteryConfig \<Rightarrow> real option \<Rightarrow> real" where
  "start_soc b prev_soc =
     (case prev_soc of None \<Rightarrow> initial_soc_frac b * capacity_kwh b | Some s \<Rightarrow> s)"

definition prev_soc_at :: "real option \<Rightarrow> dispatch_row list \<Rightarrow> nat \<Rightarrow> real option" where
  "prev_soc_at prev_soc ds t = (if t = 0 then prev_soc else Some (soc_kwh (ds ! (t - 1))))"

text \<open>\<open>soc[t-1]\<close>, with \<open>initial_soc_frac * capacity\<close> at \<open>t = 0\<close>.\<close>

definition soc_before :: "BatteryConfig \<Rightarrow> dispatch_row list \<Rightarrow> nat \<Rightarrow> real" where
  "soc_before b ds t =
     (if t = 0 then initial_soc_frac b * capacity_kwh b else soc_kwh (ds ! (t - 1)))"

definition soc_in_range :: "BatteryConfig \<Rightarrow> real \<Rightarrow> bool" where
  "soc_in_range b s =
     (min_soc_frac b * capacity_kwh b \<le> s \<and> s \<le> max_soc_frac b * capacity_kwh b)"

definition within_cap :: "real option \<Rightarrow> real \<Rightarrow> bool" where
  "within_cap cap flow = (case cap of None \<Rightarrow> True | Some c \<Rightarrow> flow \<le> c)"

text \<open>The hard bounds of a dispatch row, without tolerance.\<close>

definition row_in_bounds :: "SiteConfig \<Rightarrow> dispatch_row \<Rightarrow> bool" where
  "row_in_bounds site_config r =
     (0 \<le> battery_charge_kw r \<and> battery_charge_kw r \<le> max_charge_kw (battery site_config) \<and>
      0 \<le> battery_discharge_kw r \<and>
      battery_discharge_kw r \<le> max_discharge_kw (battery site_config) \<and>
      0 \<le> grid_import_kw r \<and> 0 \<le> grid_export_kw r \<and>
      soc_in_range (battery site_config) (soc_kwh r) \<and>
      within_cap (max_grid_import_kw site_config) (grid_import_kw r) \<and>
      within_cap (max_grid_export_kw site_config) (grid_export_kw r))"

text \<open>\<open>load + charge + export - generation - discharge - import\<close> of one step.\<close>

definition energy_balance_residual :: "real \<Rightarrow> real \<Rightarrow> dispatch_row \<Rightarrow> real" where
  "energy_balance_residual load pv r =
     load + battery_charge_kw r + grid_export_kw r
       - pv - battery_discharge_kw r - grid_import_kw r"

text \<open>A cap that is absent, or strictly above the stored flow, did not truncate it.\<close>

definition cap_not_binding :: "real option \<Rightarrow> real \<Rightarrow> bool" where
  "cap_not_binding cap flow = (case cap of None \<Rightarrow> True | Some c \<Rightarrow> flow < c)"

text \<open>The right-hand side of the SOC dynamics: \<open>soc_prev + charge * eta_c * dt - discharge * dt / eta_d\<close>.\<close>

definition soc_dynamics :: "BatteryConfig \<Rightarrow> real \<Rightarrow> real \<Rightarrow> dispatch_row \<Rightarrow> real" where
  "soc_dynamics b timestep_hours soc_prev r =
     soc_prev + battery_charge_kw r * charge_efficiency b * timestep_hours
       - battery_discharge_kw r * timestep_hours / discharge_efficiency b"

subsection \<open>What the validator checks\<close>

text \<open>
  What \<open>validate_dispatch_result\<close> checks of one row: every bound is relaxed by
  \<open>NUMERICAL_TOLERANCE\<close>.
\<close>

definition cap_within_tolerance :: "real option \<Rightarrow> real \<Rightarrow> bool" where
  "cap_within_tolerance cap flow =
     (case cap of None \<Rightarrow> True | Some c \<Rightarrow> flow \<le> c + NUMERICAL_TOLERANCE)"

definition row_within_tolerance :: "SiteConfig \<Rightarrow> dispatch_row \<Rightarrow> bool" where
  "row_within_tolerance site_config r =
     (- NUMERICAL_TOLERANCE \<le> grid_import_kw r \<and> - NUMERICAL_TOLERANCE \<le> grid_export_kw r \<and>
      - NUMERICAL_TOLERANCE \<le> battery_charge_kw r \<and>
      - NUMERICAL_TOLERANCE \<le> battery_discharge_kw r \<and>
      min_soc_frac (battery site_config) * capacity_kwh (battery site_config) - NUMERICAL_TOLERANCE
        \<le> soc_kwh r \<and>
      soc_kwh r
        \<le> max_soc_frac (battery site_config) * capacity_kwh (battery site_config) + NUMERICAL_TOLERANCE \<and>
      battery_charge_kw r \<le> max_charge_kw (battery site_config) + NUMERICAL_TOLERANCE \<and>
      battery_discharge_kw r \<le> max_discharge_kw (battery site_config) + NUMERICAL_TOLERANCE \<and>
      cap_within_tolerance (max_grid_import_kw site_config) (grid_import_kw r) \<and>
      cap_within_tolerance (max_grid_export_kw site_config) (grid_export_kw r))"

text \<open>
  What a \<open>ValidationError\<close> message says of the frame: some row breaks the bound that the
  message names, by more than the tolerance.
\<close>

fun message_holds :: "SiteConfig \<Rightarrow> dispatch_row list \<Rightarrow> validation_message \<Rightarrow> bool" where
  "message_holds site_config df (HasNegativeValues col) =
     list_ex (\<lambda>(c, get). c = col \<and> list_ex (\<lambda>r. get r < - NUMERICAL_TOLERANCE) df) power_cols"
| "message_holds site_config df (SocBelowMinimum v) =
     (v = min_soc_frac (battery site_config) * capacity_kwh (battery site_config) \<and>
      list_ex (\<lambda>r. soc_kwh r < v - NUMERICAL_TOLERANCE) df)"
| "message_holds site_config df (SocAboveMaximum v) =
     (v = max_soc_frac (battery site_config) * capacity_kwh (battery site_config) \<and>
      list_ex (\<lambda>r. soc_kwh r > v + NUMERICAL_TOLERANCE) df)"
| "message_holds site_config df (ChargePowerExceedsLimit v) =
     (v = max_charge_kw (battery site_config) \<and>
      list_ex (\<lambda>r. battery_charge_kw r > v + NUMERICAL_TOLERANCE) df)"
| "message_holds site_config df (DischargePowerExceedsLimit v) =
     (v = max_discharge_kw (battery site_config) \<and>
      list_ex (\<lambda>r. battery_discharge_kw r > v + NUMERICAL_TOLERANCE) df)"
| "message_holds site_config df (GridImportExceedsLimit v) =
     (max_grid_import_kw site_config = Some v \<and>
      list_ex (\<lambda>r. grid_import_kw r > v + NUMERICAL_TOLERANCE) df)"
| "message_holds site_config df (GridExportExceedsLimit v) =
     (max_grid_export_kw site_config = Some v \<and>
      list_ex (\<lambda>r. grid_export_kw r > v + NUMERICAL_TOLERANCE) df)"

subsection \<open>The sweep\<close>

text \<open>Two energy costs more than \<open>1e-6\<close> apart.\<close>

definition energy_apart :: "ParetoPoint \<Rightarrow> ParetoPoint \<Rightarrow> bool" where
  "energy_apart p q = (1 / 1000000 < \<bar>energy_cost q - energy_cost p\<bar>)"

text \<open>
  The spec's wording of the sweep, read from the left over the solved points: a point is
  kept when no point was kept before it, or when its energy cost is more than \<open>1e-6\<close>
  away from that of the point kept last.
\<close>

fun accepted_points :: "ParetoPoint option \<Rightarrow> ParetoPoint list \<Rightarrow> ParetoPoint list" where
  "accepted_points previous [] = []"
| "accepted_points previous (p # ps) =
     (if (case previous of
            None \<Rightarrow> True
          | Some q \<Rightarrow> 1 / 1000000 < \<bar>energy_cost p - energy_cost q\<bar>)
      then p # accepted_points (Some p) ps
      else accepted_points previous ps)"

definition last_accepted :: "ParetoPoint list \<Rightarrow> ParetoPoint option" where
  "last_accepted front = (if front = [] then None else Some (last front))"

subsection \<open>The objective and the peak constraints\<close>

text \<open>
  The objective in the spec's words:
  \<open>\<Sum> import[t] * price_import[t] * dt - \<Sum> export[t] * price_export[t] * dt
     + degradation_rate * \<Sum> (charge[t] + discharge[t]) * dt [+ peak * demand_rate]\<close>.
\<close>

definition spec_objective ::
  "(variable \<Rightarrow> real) \<Rightarrow> nat \<Rightarrow> real list \<Rightarrow> real list \<Rightarrow> real \<Rightarrow> real \<Rightarrow> real \<Rightarrow> bool \<Rightarrow> real" where
  "spec_objective x T import_price export_price dt degradation_rate demand_rate enabled =
     (\<Sum>t<T. x (GridImport t) * import_price ! t * dt)
       - (\<Sum>t<T. x (GridExport t) * export_price ! t * dt)
       + degradation_rate * (\<Sum>t<T. (x (BatteryCharge t) + x (BatteryDischarge t)) * dt)
       + (if enabled then x PeakDemand * demand_rate else 0)"

text \<open>The variables of the terms of an expression.\<close>

definition expr_vars :: "linear_expr \<Rightarrow> variable list" where
  "expr_vars e = map snd (fst e)"

text \<open>A constraint mentions a variable that occurs in one of its two sides.\<close>

definition mentions :: "variable \<Rightarrow> linear_constraint \<Rightarrow> bool" where
  "mentions v c = (v \<in> set (expr_vars (con_lhs c) @ expr_vars (con_rhs c)))"

text \<open>The five variable arrays of a model over \<open>T\<close> steps, and the peak variable.\<close>

definition base_variables :: "nat \<Rightarrow> variable_decl list" where
  "base_variables T =
     map (\<lambda>name. \<lparr> var_name = name, var_lower = 0, var_size = Some T \<rparr>)
       [''grid_import_kw'', ''grid_export_kw'', ''battery_charge_kw'',
        ''battery_discharge_kw'', ''soc_kwh'']"

definition peak_variable :: variable_decl where
  "peak_variable = \<lparr> var_name = ''peak_demand_kw'', var_lower = 0, var_size = None \<rparr>"

text \<open>The constraints \<open>peak \<ge> import[t]\<close>, one for each step.\<close>

definition peak_constraints :: "nat \<Rightarrow> linear_constraint list" where
  "peak_constraints T =
     map (\<lambda>t. \<lparr> con_name = (''peak_ge_import_'', t), con_lhs = var_expr PeakDemand,
                 con_sign = GreaterEq, con_rhs = var_expr (GridImport t) \<rparr>) [0 ..< T]"

text \<open>A model with the given variables and no constraint on the peak variable.\<close>

definition peak_free :: "variable_decl list \<Rightarrow> lp_model \<Rightarrow> bool" where
  "peak_free vs m =
     (variables m = vs \<and> filter (mentions PeakDemand) (constraints m) = [])"

section \<open>Example inputs\<close>

text \<open>The battery of the repository's test fixtures and example bundles.\<close>

definition example_battery :: BatteryConfig where
  "example_battery =
     \<lparr> capacity_kwh = 10, max_charge_kw = 5, max_discharge_kw = 5,
       charge_efficiency = 19 / 20, discharge_efficiency = 19 / 20,
       min_soc_frac = 1 / 10, max_soc_frac = 9 / 10, initial_soc_frac = 1 / 2,
       degradation_cost_gbp_per_kwh = 0 \<rparr>"

definition example_site :: SiteConfig where
  "example_site =
     \<lparr> site_id = ''test_site'', battery = example_battery,
       max_grid_import_kw = None, max_grid_export_kw = None \<rparr>"

definition example_tariff :: TariffConfig where
  "example_tariff =
     \<lparr> flat_import_price_gbp_per_kwh = Some (3 / 20),
       flat_export_price_gbp_per_kwh = Some (1 / 20),
       demand_charge_enabled = False, demand_charge_gbp_per_kw = 0 \<rparr>"

definition example_run :: RunConfig where
  "example_run =
     \<lparr> run_id = ''test_run'', timestep_minutes = 15, horizon_hours = 2,
       tariff = example_tariff, solver_time_limit_seconds = 60,
       solver_gap_tolerance = 1 / 10000 \<rparr>"

text \<open>The example run with a demand charge of 15 GBP/kW.\<close>

definition demand_run :: RunConfig where
  "demand_run =
     example_run \<lparr> tariff := example_tariff \<lparr> demand_charge_enabled := True,
                                              demand_charge_gbp_per_kw := 15 \<rparr> \<rparr>"

text \<open>Two steps of 15 minutes: a deficit of 3 kW, then a surplus of 10 kW.\<close>

definition two_step_timeseries :: timeseries where
  "two_step_timeseries =
     \<lparr> load_kw = [5, 0], pv_kw = [2, 10],
       import_price_gbp_per_kwh = Some [3 / 20, 3 / 20],
       export_price_gbp_per_kwh = Some [1 / 20, 1 / 20] \<rparr>"

text \<open>Two steps whose import prices differ from the flat price of the example tariff.\<close>

definition tou_timeseries :: timeseries where
  "tou_timeseries =
     \<lparr> load_kw = [5, 0], pv_kw = [2, 10],
       import_price_gbp_per_kwh = Some [1 / 10, 3 / 10],
       export_price_gbp_per_kwh = Some [1 / 20, 1 / 20] \<rparr>"

text \<open>The example site with the battery at 85 % of its capacity, 0.5 kWh below its maximum SOC.\<close>

definition nearly_full_site :: SiteConfig where
  "nearly_full_site = example_site \<lparr> battery := example_battery \<lparr> initial_soc_frac := 17 / 20 \<rparr> \<rparr>"

text \<open>Two steps of 15 minutes: a surplus of 10 kW, then a deficit of 3 kW.\<close>

definition surplus_then_deficit :: timeseries where
  "surplus_then_deficit =
     \<lparr> load_kw = [0, 5], pv_kw = [10, 2],
       import_price_gbp_per_kwh = Some [3 / 20, 3 / 20],
       export_price_gbp_per_kwh = Some [1 / 20, 1 / 20] \<rparr>"

text \<open>One step with a load of 10 kW and no generation.\<close>

definition deficit_timeseries :: timeseries where
  "deficit_timeseries =
     \<lparr> load_kw = [10], pv_kw = [0],
       import_price_gbp_per_kwh = Some [3 / 20],
       export_price_gbp_per_kwh = Some [1 / 20] \<rparr>"

text \<open>A frame of one row: 2 kW of import at 0.15 GBP/kWh.\<close>

definition one_priced_row :: priced_row where
  "one_priced_row =
     \<lparr> grid_import_kw = 2, grid_export_kw = 0, battery_charge_kw = 0,
       battery_discharge_kw = 0, soc_kwh = 5, price_import = 3 / 20, price_export = 1 / 20 \<rparr>"

text \<open>A front of three points, ordered by increasing peak.\<close>

definition three_point_front :: "ParetoPoint list" where
  "three_point_front =
     [\<lparr> energy_cost = 10, peak_demand_kw = 2, total_cost = 40, dispatch = None \<rparr>,
      \<lparr> energy_cost = 8, peak_demand_kw = 3, total_cost = 53, dispatch = None \<rparr>,
      \<lparr> energy_cost = 7, peak_demand_kw = 5, total_cost = 82, dispatch = None \<rparr>]"

text \<open>
  A solver for the examples: infeasible below a peak limit of 3 kW, and no cheaper once the
  limit passes 4 kW.
\<close>

definition stepped_solver :: "real \<Rightarrow> ParetoPoint option" where
  "stepped_solver eps =
     (if eps < 3 then None
      else Some \<lparr> energy_cost = 10 - min eps 4, peak_demand_kw = min eps 4,
                  total_cost = 10 - min eps 4 + 15 * min eps 4, dispatch = None \<rparr>)"

text \<open>What a solve of an infeasible problem leaves in the model.\<close>

definition infeasible_model :: solved_model where
  "infeasible_model =
     \<lparr> status = ''warning'', termination_condition = Some ''infeasible'',
       solution_grid_import_kw = [], solution_grid_export_kw = [],
       solution_battery_charge_kw = [], solution_battery_discharge_kw = [],
       solution_soc_kwh = [], objective_value = 0 \<rparr>"

section \<open>The baseline dispatch: the SOC recurrence\<close>

lemma min_limit_quotient_nonneg:
  assumes "min_limit_quotient py limit num den = Inr m" "0 < limit" "0 \<le> num" "0 \<le> den"
  shows "0 \<le> m \<and> m \<le> limit \<and> m * den \<le> num"
proof (cases "den = 0")
  case True
  with assms show ?thesis
    by (auto simp: min_limit_quotient_def split: if_splits)
next
  case False
  with assms have pos: "0 < den" by simp
  from assms False have m: "m = min limit (num / den)"
    by (simp add: min_limit_quotient_def)
  have "0 \<le> num / den" using assms pos by simp
  moreover have "min limit (num / den) * den \<le> num"
  proof -
    have "min limit (num / den) * den \<le> (num / den) * den"
      using pos by (intro mult_right_mono) auto
    also have "\<dots> = num" using pos by simp
    finally show ?thesis .
  qed
  ultimately show ?thesis using m assms by auto
qed

lemma min_limit_quotient_error:
  assumes "min_limit_quotient py limit num den = Inl e" "0 \<le> num"
  shows "e = ZeroDivisionError \<and> den = 0 \<and> py"
  using assms by (auto simp: min_limit_quotient_def split: if_splits)

lemma baseline_flows_facts:
  assumes ok: "BatteryConfig_fields_ok b" and dt: "0 < timestep_hours"
    and rng: "soc_in_range b soc"
    and flows: "baseline_flows b timestep_hours prev_soc soc load pv = Inr (c, d, i, e)"
  shows "0 \<le> c \<and> c \<le> max_charge_kw b \<and> 0 \<le> d \<and> d \<le> max_discharge_kw b \<and>
         0 \<le> i \<and> 0 \<le> e \<and> load + c + e = pv + d + i \<and>
         c * (timestep_hours * charge_efficiency b) \<le> max_soc_frac b * capacity_kwh b - soc \<and>
         d * (timestep_hours / discharge_efficiency b) \<le> soc - min_soc_frac b * capacity_kwh b \<and>
         (d = 0 \<or> (c = 0 \<and> discharge_efficiency b \<noteq> 0))"
proof (cases "pv - load > 0")
  case True
  from flows True obtain m where
    m: "min_limit_quotient (prev_soc = None) (max_charge_kw b)
          (max_soc_frac b * capacity_kwh b - soc) (timestep_hours * charge_efficiency b) = Inr m"
    and c: "c = min (pv - load) m" and d: "d = 0" and i: "i = 0" and e: "e = pv - load - c"
    by (auto simp: baseline_flows_def Let_def split: sum.splits)
  have den: "0 \<le> timestep_hours * charge_efficiency b"
    using ok dt by (simp add: BatteryConfig_fields_ok_def)
  have mf: "0 \<le> m \<and> m \<le> max_charge_kw b \<and>
            m * (timestep_hours * charge_efficiency b) \<le> max_soc_frac b * capacity_kwh b - soc"
    using min_limit_quotient_nonneg [OF m] ok rng den
    by (simp add: BatteryConfig_fields_ok_def soc_in_range_def)
  have cm: "0 \<le> c \<and> c \<le> m" using c True mf by simp
  have "c * (timestep_hours * charge_efficiency b) \<le> m * (timestep_hours * charge_efficiency b)"
    using cm den by (intro mult_right_mono) auto
  then have "c * (timestep_hours * charge_efficiency b) \<le> max_soc_frac b * capacity_kwh b - soc"
    using mf by linarith
  moreover have "0 \<le> e" using e c by simp
  moreover have "0 \<le> soc - min_soc_frac b * capacity_kwh b"
    using rng by (simp add: soc_in_range_def)
  ultimately show ?thesis using cm mf d i e ok by (simp add: BatteryConfig_fields_ok_def)
next
  case False
  from flows False obtain m where
    eff: "discharge_efficiency b \<noteq> 0"
    and m: "min_limit_quotient (prev_soc = None) (max_discharge_kw b)
          (soc - min_soc_frac b * capacity_kwh b) (timestep_hours / discharge_efficiency b) = Inr m"
    and d: "d = min (load - pv) m" and c: "c = 0" and e: "e = 0" and i: "i = load - pv - d"
    by (auto simp: baseline_flows_def py_div_def Let_def split: sum.splits if_splits)
  have den: "0 \<le> timestep_hours / discharge_efficiency b"
    using ok dt by (simp add: BatteryConfig_fields_ok_def)
  have mf: "0 \<le> m \<and> m \<le> max_discharge_kw b \<and>
            m * (timestep_hours / discharge_efficiency b) \<le> soc - min_soc_frac b * capacity_kwh b"
    using min_limit_quotient_nonneg [OF m] ok rng den
    by (simp add: BatteryConfig_fields_ok_def soc_in_range_def)
  have dm: "0 \<le> d \<and> d \<le> m" using d False mf by simp
  have "d * (timestep_hours / discharge_efficiency b) \<le> m * (timestep_hours / discharge_efficiency b)"
    using dm den by (intro mult_right_mono) auto
  then have "d * (timestep_hours / discharge_efficiency b) \<le> soc - min_soc_frac b * capacity_kwh b"
    using mf by linarith
  moreover have "0 \<le> i" using i d by simp
  moreover have "0 \<le> max_soc_frac b * capacity_kwh b - soc"
    using rng by (simp add: soc_in_range_def)
  ultimately show ?thesis using dm mf c i e eff ok by (simp add: BatteryConfig_fields_ok_def)
qed

lemma baseline_flows_error:
  assumes ok: "BatteryConfig_fields_ok b" and rng: "soc_in_range b soc"
    and flows: "baseline_flows b timestep_hours prev_soc soc load pv = Inl err"
  shows "err = ZeroDivisionError \<and>
         (discharge_efficiency b = 0 \<or> timestep_hours * charge_efficiency b = 0 \<or> timestep_hours = 0)"
proof (cases "pv - load > 0")
  case True
  with flows have "min_limit_quotient (prev_soc = None) (max_charge_kw b)
          (max_soc_frac b * capacity_kwh b - soc) (timestep_hours * charge_efficiency b) = Inl err"
    by (auto simp: baseline_flows_def Let_def split: sum.splits)
  from min_limit_quotient_error [OF this] rng show ?thesis
    by (simp add: soc_in_range_def)
next
  case False
  show ?thesis
  proof (cases "discharge_efficiency b = 0")
    case True
    with flows False show ?thesis
      by (auto simp: baseline_flows_def py_div_def Let_def split: sum.splits if_splits)
  next
    case nz: False
    with flows False have "min_limit_quotient (prev_soc = None) (max_discharge_kw b)
          (soc - min_soc_frac b * capacity_kwh b) (timestep_hours / discharge_efficiency b) = Inl err"
      by (auto simp: baseline_flows_def py_div_def Let_def split: sum.splits if_splits)
    from min_limit_quotient_error [OF this] rng nz show ?thesis
      by (simp add: soc_in_range_def)
  qed
qed

lemma apply_grid_limit_facts:
  assumes "optional_gt0 cap" "0 \<le> flow"
  shows "0 \<le> apply_grid_limit cap flow \<and> within_cap cap (apply_grid_limit cap flow) \<and>
         apply_grid_limit cap flow \<le> flow \<and>
         (cap_not_binding cap (apply_grid_limit cap flow) \<longrightarrow> apply_grid_limit cap flow = flow)"
  using assms
  by (auto simp: apply_grid_limit_def within_cap_def optional_gt0_def cap_not_binding_def
      split: option.splits)

lemma baseline_step_facts:
  assumes ok: "SiteConfig_fields_ok site_config" and dt: "0 < timestep_hours"
    and lim: "soc_limits_ok (battery site_config)"
    and rng: "soc_in_range (battery site_config) (start_soc (battery site_config) prev_soc)"
    and stp: "baseline_step site_config timestep_hours prev_soc (load, pv) = Inr r"
  shows "row_in_bounds site_config r"
    and "soc_kwh r =
           soc_dynamics (battery site_config) timestep_hours (start_soc (battery site_config) prev_soc) r"
    and "cap_not_binding (max_grid_import_kw site_config) (grid_import_kw r) \<Longrightarrow>
         cap_not_binding (max_grid_export_kw site_config) (grid_export_kw r) \<Longrightarrow>
         energy_balance_residual load pv r = 0"
proof -
  define b where "b = battery site_config"
  define soc where "soc = start_soc b prev_soc"
  from stp obtain c d i e new_soc where
    fl: "baseline_flows b timestep_hours prev_soc soc load pv = Inr (c, d, i, e)"
    and up: "update_soc b timestep_hours soc c d = Inr new_soc"
    and r: "r = \<lparr> grid_import_kw = apply_grid_limit (max_grid_import_kw site_config) i,
                  grid_export_kw = apply_grid_limit (max_grid_export_kw site_config) e,
                  battery_charge_kw = c, battery_discharge_kw = d, soc_kwh = new_soc \<rparr>"
    by (auto simp: baseline_step_def Let_def b_def soc_def start_soc_def split: sum.splits prod.splits)
  have bok: "BatteryConfig_fields_ok b" using ok by (simp add: SiteConfig_fields_ok_def b_def)
  have rng': "soc_in_range b soc" using rng by (simp add: b_def soc_def)
  note f = baseline_flows_facts [OF bok dt rng' fl]
  from up have eff: "discharge_efficiency b \<noteq> 0"
    and new: "new_soc = max (min_soc_frac b * capacity_kwh b)
                (min (max_soc_frac b * capacity_kwh b)
                  (soc + c * timestep_hours * charge_efficiency b
                     - d * timestep_hours / discharge_efficiency b))"
    by (auto simp: update_soc_def py_div_def Let_def split: if_splits)
  have up_ge: "0 \<le> c * (timestep_hours * charge_efficiency b)"
    using f bok dt by (simp add: BatteryConfig_fields_ok_def)
  have down_ge: "0 \<le> d * (timestep_hours / discharge_efficiency b)"
    using f bok dt by (simp add: BatteryConfig_fields_ok_def)
  have one: "d = 0 \<or> c = 0" using f by auto
  have lo: "min_soc_frac b * capacity_kwh b
              \<le> soc + c * (timestep_hours * charge_efficiency b)
                   - d * (timestep_hours / discharge_efficiency b)"
    using one f up_ge rng' by (auto simp: soc_in_range_def)
  have hi: "soc + c * (timestep_hours * charge_efficiency b)
                   - d * (timestep_hours / discharge_efficiency b)
              \<le> max_soc_frac b * capacity_kwh b"
    using one f down_ge rng' by (auto simp: soc_in_range_def)
  have new_eq: "new_soc = soc + c * (timestep_hours * charge_efficiency b)
                   - d * (timestep_hours / discharge_efficiency b)"
    using new lo hi by (simp add: mult.assoc)
  have caps: "optional_gt0 (max_grid_import_kw site_config)" "optional_gt0 (max_grid_export_kw site_config)"
    using ok by (simp_all add: SiteConfig_fields_ok_def)
  note gi = apply_grid_limit_facts [OF caps(1), of i]
  note ge = apply_grid_limit_facts [OF caps(2), of e]
  show "row_in_bounds site_config r"
    using f gi ge new_eq lo hi r
    by (simp add: row_in_bounds_def soc_in_range_def b_def)
  show "soc_kwh r =
           soc_dynamics (battery site_config) timestep_hours (start_soc (battery site_config) prev_soc) r"
    using new_eq r by (simp add: soc_dynamics_def b_def soc_def mult.commute mult.left_commute)
  show "energy_balance_residual load pv r = 0"
    if "cap_not_binding (max_grid_import_kw site_config) (grid_import_kw r)"
      and "cap_not_binding (max_grid_export_kw site_config) (grid_export_kw r)"
    using that f gi ge r by (simp add: energy_balance_residual_def)
qed

lemma baseline_step_error:
  assumes ok: "SiteConfig_fields_ok site_config"
    and rng: "soc_in_range (battery site_config) (start_soc (battery site_config) prev_soc)"
    and stp: "baseline_step site_config timestep_hours prev_soc (load, pv) = Inl err"
  shows "err = ZeroDivisionError \<and>
         (discharge_efficiency (battery site_config) = 0 \<or>
          charge_efficiency (battery site_config) = 0 \<or> timestep_hours = 0)"
proof -
  define b where "b = battery site_config"
  define soc where "soc = start_soc b prev_soc"
  have bok: "BatteryConfig_fields_ok b" using ok by (simp add: SiteConfig_fields_ok_def b_def)
  have rng': "soc_in_range b soc" using rng by (simp add: b_def soc_def)
  show ?thesis
  proof (cases "baseline_flows b timestep_hours prev_soc soc load pv")
    case (Inl e)
    with stp have "e = err"
      by (simp add: baseline_step_def Let_def b_def soc_def start_soc_def)
    with baseline_flows_error [OF bok rng' Inl] show ?thesis by (auto simp: b_def)
  next
    case (Inr q)
    with stp obtain c d where "update_soc b timestep_hours soc c d = Inl err"
      by (auto simp: baseline_step_def Let_def b_def soc_def start_soc_def split: sum.splits prod.splits)
    then show ?thesis
      by (auto simp: update_soc_def py_div_def Let_def b_def split: if_splits)
  qed
qed

lemma baseline_loop_lift:
  assumes step: "\<And>prev_soc row r. ok_soc prev_soc \<Longrightarrow>
             baseline_step site_config timestep_hours prev_soc row = Inr r \<Longrightarrow>
             P prev_soc row r \<and> ok_soc (Some (soc_kwh r))"
  shows "ok_soc prev_soc \<Longrightarrow> baseline_loop site_config timestep_hours prev_soc rows = Inr ds \<Longrightarrow>
         length ds = length rows \<and>
         (\<forall>t<length rows. P (prev_soc_at prev_soc ds t) (rows ! t) (ds ! t))"
proof (induction rows arbitrary: prev_soc ds)
  case Nil
  then show ?case by simp
next
  case (Cons row rows)
  from Cons.prems(2) obtain r rs where
    r: "baseline_step site_config timestep_hours prev_soc row = Inr r"
    and rs: "baseline_loop site_config timestep_hours (Some (soc_kwh r)) rows = Inr rs"
    and ds: "ds = r # rs"
    by (auto split: sum.splits)
  from step [OF Cons.prems(1) r] have P0: "P prev_soc row r" and ok_soc': "ok_soc (Some (soc_kwh r))"
    by simp_all
  from Cons.IH [OF ok_soc' rs] have len: "length rs = length rows"
    and rest: "\<forall>t<length rows. P (prev_soc_at (Some (soc_kwh r)) rs t) (rows ! t) (rs ! t)"
    by simp_all
  have "P (prev_soc_at prev_soc ds t) ((row # rows) ! t) (ds ! t)" if "t < length (row # rows)" for t
  proof (cases t)
    case 0
    then show ?thesis using P0 ds by (simp add: prev_soc_at_def)
  next
    case (Suc k)
    with that have k: "k < length rows" by simp
    have "prev_soc_at prev_soc ds (Suc k) = prev_soc_at (Some (soc_kwh r)) rs k"
      by (cases k) (simp_all add: prev_soc_at_def ds)
    with rest k Suc ds show ?thesis by simp
  qed
  then show ?case using len ds by simp
qed

lemma baseline_loop_returns:
  assumes step: "\<And>prev_soc row. ok_soc prev_soc \<Longrightarrow>
             \<exists>r. baseline_step site_config timestep_hours prev_soc row = Inr r \<and> ok_soc (Some (soc_kwh r))"
  shows "ok_soc prev_soc \<Longrightarrow> \<exists>ds. baseline_loop site_config timestep_hours prev_soc rows = Inr ds"
proof (induction rows arbitrary: prev_soc)
  case Nil
  then show ?case by simp
next
  case (Cons row rows)
  from step [OF Cons.prems] obtain r where
    r: "baseline_step site_config timestep_hours prev_soc row = Inr r" and ok_soc': "ok_soc (Some (soc_kwh r))"
    by blast
  from Cons.IH [OF ok_soc'] obtain rs where
    "baseline_loop site_config timestep_hours (Some (soc_kwh r)) rows = Inr rs" by blast
  with r show ?case by simp
qed

lemma soc_before_start: "soc_before b ds t = start_soc b (prev_soc_at None ds t)"
  by (simp add: soc_before_def start_soc_def prev_soc_at_def)

lemma zip_rows_length: "timeseries_ok ts \<Longrightarrow> length (zip (load_kw ts) (pv_kw ts)) = length (load_kw ts)"
  by (simp add: timeseries_ok_def)

lemma baseline_loop_facts:
  assumes ok: "SiteConfig_fields_ok site_config" and dt: "0 < timestep_hours"
    and lim: "soc_limits_ok (battery site_config)"
    and rng: "soc_in_range (battery site_config) (start_soc (battery site_config) prev_soc)"
    and run: "baseline_loop site_config timestep_hours prev_soc rows = Inr ds"
  shows "length ds = length rows \<and>
         (\<forall>t<length rows.
            row_in_bounds site_config (ds ! t) \<and>
            soc_kwh (ds ! t) =
              soc_dynamics (battery site_config) timestep_hours
                (start_soc (battery site_config) (prev_soc_at prev_soc ds t)) (ds ! t) \<and>
            (cap_not_binding (max_grid_import_kw site_config) (grid_import_kw (ds ! t)) \<longrightarrow>
             cap_not_binding (max_grid_export_kw site_config) (grid_export_kw (ds ! t)) \<longrightarrow>
             energy_balance_residual (fst (rows ! t)) (snd (rows ! t)) (ds ! t) = 0))"
proof (rule baseline_loop_lift
    [where ok_soc = "\<lambda>p. soc_in_range (battery site_config) (start_soc (battery site_config) p)"
       and P = "\<lambda>p row r. row_in_bounds site_config r \<and>
            soc_kwh r = soc_dynamics (battery site_config) timestep_hours
                (start_soc (battery site_config) p) r \<and>
            (cap_not_binding (max_grid_import_kw site_config) (grid_import_kw r) \<longrightarrow>
             cap_not_binding (max_grid_export_kw site_config) (grid_export_kw r) \<longrightarrow>
             energy_balance_residual (fst row) (snd row) r = 0)", OF _ rng run])
  fix p row r
  assume p: "soc_in_range (battery site_config) (start_soc (battery site_config) p)"
    and r: "baseline_step site_config timestep_hours p row = Inr r"
  from r have r': "baseline_step site_config timestep_hours p (fst row, snd row) = Inr r" by simp
  note f = baseline_step_facts [OF ok dt lim p r']
  from f(1) have "soc_in_range (battery site_config) (start_soc (battery site_config) (Some (soc_kwh r)))"
    by (simp add: row_in_bounds_def start_soc_def)
  with f show "(row_in_bounds site_config r \<and>
            soc_kwh r = soc_dynamics (battery site_config) timestep_hours
                (start_soc (battery site_config) p) r \<and>
            (cap_not_binding (max_grid_import_kw site_config) (grid_import_kw r) \<longrightarrow>
             cap_not_binding (max_grid_export_kw site_config) (grid_export_kw r) \<longrightarrow>
             energy_balance_residual (fst row) (snd row) r = 0)) \<and>
         soc_in_range (battery site_config) (start_soc (battery site_config) (Some (soc_kwh r)))"
    by simp
qed

lemma initial_soc_in_range:
  assumes "SiteConfig_fields_ok site_config" "soc_limits_ok (battery site_config)"
  shows "soc_in_range (battery site_config) (start_soc (battery site_config) None)"
proof -
  have "0 < capacity_kwh (battery site_config)"
    using assms by (simp add: SiteConfig_fields_ok_def BatteryConfig_fields_ok_def)
  then show ?thesis using assms(2)
    by (simp add: soc_in_range_def start_soc_def soc_limits_ok_def)
qed

lemma baseline_loop_total:
  assumes ok: "SiteConfig_fields_ok site_config" and dt: "0 < timestep_hours"
    and lim: "soc_limits_ok (battery site_config)"
    and eff: "0 < charge_efficiency (battery site_config)" "0 < discharge_efficiency (battery site_config)"
    and rng: "soc_in_range (battery site_config) (start_soc (battery site_config) prev_soc)"
  shows "\<exists>ds. baseline_loop site_config timestep_hours prev_soc rows = Inr ds"
proof (rule baseline_loop_returns
    [where ok_soc = "\<lambda>p. soc_in_range (battery site_config) (start_soc (battery site_config) p)", OF _ rng])
  fix p row
  assume p: "soc_in_range (battery site_config) (start_soc (battery site_config) p)"
  show "\<exists>r. baseline_step site_config timestep_hours p row = Inr r \<and>
            soc_in_range (battery site_config) (start_soc (battery site_config) (Some (soc_kwh r)))"
  proof (cases "baseline_step site_config timestep_hours p row")
    case (Inl e)
    then have "baseline_step site_config timestep_hours p (fst row, snd row) = Inl e" by simp
    from baseline_step_error [OF ok p this] eff dt show ?thesis by simp
  next
    case (Inr r)
    then have "baseline_step site_config timestep_hours p (fst row, snd row) = Inr r" by simp
    from baseline_step_facts(1) [OF ok dt lim p this] Inr show ?thesis
      by (simp add: row_in_bounds_def start_soc_def)
  qed
qed

lemmas input_ok_eval =
  baseline_input_ok_def timeseries_ok_def column_ok_def SiteConfig_fields_ok_def
  BatteryConfig_fields_ok_def optional_gt0_def soc_limits_ok_def
  example_site_def example_battery_def

lemmas baseline_eval =
  compute_baseline_dispatch_def baseline_step_def baseline_flows_def update_soc_def
  min_limit_quotient_def py_div_def apply_grid_limit_def Let_def
  example_site_def example_battery_def

text \<open>
  Claim C5. For a well-formed input (a frame of equally long columns with non-negative load
  and generation, a battery within the schema's ranges with
  \<open>min_soc_frac < max_soc_frac\<close> and \<open>initial_soc_frac\<close> between them, a positive
  timestep), every dispatch that \<open>compute_baseline_dispatch\<close> returns has one row per
  input row and satisfies \<open>soc[t] = soc[t-1] + charge[t] * eta_c * dt - discharge[t] * dt / eta_d\<close>
  at every step, with \<open>initial_soc_frac * capacity\<close> for \<open>soc[-1]\<close>: the clamp of lines
  109 to 112 never changes the value of the update. A dispatch is returned whenever both
  efficiencies are positive.
\<close>

theorem baseline_soc_recurrence:
  assumes wf: "baseline_input_ok ts site_config timestep_hours"
  shows "(\<forall>ds. compute_baseline_dispatch ts site_config timestep_hours = Inr ds \<longrightarrow>
            length ds = length (load_kw ts) \<and>
            (\<forall>t<length ds.
               soc_kwh (ds ! t) =
                 soc_dynamics (battery site_config) timestep_hours
                   (soc_before (battery site_config) ds t) (ds ! t))) \<and>
         (0 < charge_efficiency (battery site_config) \<and>
          0 < discharge_efficiency (battery site_config) \<longrightarrow>
            (\<exists>ds. compute_baseline_dispatch ts site_config timestep_hours = Inr ds))"
proof -
  from wf have ok: "SiteConfig_fields_ok site_config" and dt: "0 < timestep_hours"
    and lim: "soc_limits_ok (battery site_config)" and tsok: "timeseries_ok ts"
    by (simp_all add: baseline_input_ok_def)
  note rng = initial_soc_in_range [OF ok lim]
  have returned: "length ds = length (load_kw ts) \<and>
            (\<forall>t<length ds.
               soc_kwh (ds ! t) =
                 soc_dynamics (battery site_config) timestep_hours
                   (soc_before (battery site_config) ds t) (ds ! t))"
    if "compute_baseline_dispatch ts site_config timestep_hours = Inr ds" for ds
  proof -
    from that
    have run: "baseline_loop site_config timestep_hours None (zip (load_kw ts) (pv_kw ts)) = Inr ds"
      by (simp add: compute_baseline_dispatch_def)
    from baseline_loop_facts [OF ok dt lim rng run] zip_rows_length [OF tsok]
    show ?thesis by (simp add: soc_before_start)
  qed
  have returns: "\<exists>ds. compute_baseline_dispatch ts site_config timestep_hours = Inr ds"
    if "0 < charge_efficiency (battery site_config) \<and>
        0 < discharge_efficiency (battery site_config)"
    using that baseline_loop_total [OF ok dt lim _ _ rng]
    by (simp add: compute_baseline_dispatch_def)
  from returned returns show ?thesis by blast
qed

lemma nearly_full_ok: "baseline_input_ok surplus_then_deficit nearly_full_site (1 / 4)"
  by (simp add: input_ok_eval surplus_then_deficit_def nearly_full_site_def)

lemma nearly_full_run:
  "compute_baseline_dispatch surplus_then_deficit nearly_full_site (1 / 4) =
     Inr [\<lparr> grid_import_kw = 0, grid_export_kw = 150 / 19, battery_charge_kw = 40 / 19,
             battery_discharge_kw = 0, soc_kwh = 9 \<rparr>,
          \<lparr> grid_import_kw = 0, grid_export_kw = 0, battery_charge_kw = 0,
             battery_discharge_kw = 3, soc_kwh = 156 / 19 \<rparr>]"
  by (simp add: baseline_eval surplus_then_deficit_def nearly_full_site_def)

theorem baseline_soc_recurrence_witness:
  "baseline_input_ok surplus_then_deficit nearly_full_site (1 / 4) \<and>
   compute_baseline_dispatch surplus_then_deficit nearly_full_site (1 / 4) =
     Inr [\<lparr> grid_import_kw = 0, grid_export_kw = 150 / 19, battery_charge_kw = 40 / 19,
             battery_discharge_kw = 0, soc_kwh = 9 \<rparr>,
          \<lparr> grid_import_kw = 0, grid_export_kw = 0, battery_charge_kw = 0,
             battery_discharge_kw = 3, soc_kwh = 156 / 19 \<rparr>] \<and>
   soc_dynamics (battery nearly_full_site) (1 / 4) (17 / 20 * 10)
     \<lparr> grid_import_kw = 0, grid_export_kw = 150 / 19, battery_charge_kw = 40 / 19,
       battery_discharge_kw = 0, soc_kwh = 9 \<rparr> = 9 \<and>
   soc_dynamics (battery nearly_full_site) (1 / 4) 9
     \<lparr> grid_import_kw = 0, grid_export_kw = 0, battery_charge_kw = 0,
       battery_discharge_kw = 3, soc_kwh = 156 / 19 \<rparr> = 156 / 19"
  using baseline_soc_recurrence [OF nearly_full_ok] nearly_full_ok nearly_full_run
  by (simp add: soc_dynamics_def nearly_full_site_def example_site_def example_battery_def)

section \<open>The dispatch validator\<close>

lemma not_list_ex_less: "\<not> list_ex (\<lambda>r. f r < (a::real)) df \<longleftrightarrow> (\<forall>r\<in>set df. a \<le> f r)"
  by (induction df) auto

lemma not_list_ex_greater: "\<not> list_ex (\<lambda>r. f r > (a::real)) df \<longleftrightarrow> (\<forall>r\<in>set df. f r \<le> a)"
  by (induction df) auto

lemma check_non_negative_ok:
  "check_non_negative cols df = Inr () \<longleftrightarrow>
     (\<forall>(c, get)\<in>set cols. \<forall>r\<in>set df. - NUMERICAL_TOLERANCE \<le> get r)"
proof (induction cols df rule: check_non_negative.induct)
  case (1 df)
  then show ?case by simp
next
  case (2 col get cols df)
  show ?case
  proof (cases "list_ex (\<lambda>r. get r < - NUMERICAL_TOLERANCE) df")
    case True
    moreover from True have "\<not> (\<forall>r\<in>set df. - NUMERICAL_TOLERANCE \<le> get r)"
      using not_list_ex_less [of get "- NUMERICAL_TOLERANCE" df] by blast
    ultimately show ?thesis by simp
  next
    case False
    moreover from False have "\<forall>r\<in>set df. - NUMERICAL_TOLERANCE \<le> get r"
      using not_list_ex_less [of get "- NUMERICAL_TOLERANCE" df] by blast
    ultimately show ?thesis using 2 by simp
  qed
qed

lemma check_non_negative_error:
  "check_non_negative cols df = Inl e \<Longrightarrow>
     \<exists>col get. e = ValidationError (HasNegativeValues col) \<and> (col, get) \<in> set cols \<and>
        list_ex (\<lambda>r. get r < - NUMERICAL_TOLERANCE) df"
  by (induction cols df rule: check_non_negative.induct) (auto split: if_splits)

lemma check_grid_limit_ok:
  "check_grid_limit cap get msg df = Inr () \<longleftrightarrow> (\<forall>r\<in>set df. cap_within_tolerance cap (get r))"
proof (cases cap)
  case None
  then show ?thesis by (simp add: check_grid_limit_def cap_within_tolerance_def)
next
  case (Some c)
  then show ?thesis
    using not_list_ex_greater [of "c + NUMERICAL_TOLERANCE" get df]
    by (auto simp: check_grid_limit_def cap_within_tolerance_def)
qed

lemma check_grid_limit_error:
  "check_grid_limit cap get msg df = Inl e \<Longrightarrow>
     \<exists>c. cap = Some c \<and> e = ValidationError (msg c) \<and>
         list_ex (\<lambda>r. get r > c + NUMERICAL_TOLERANCE) df"
  by (auto simp: check_grid_limit_def split: option.splits if_splits)

lemma validate_ok_iff:
  "validate_dispatch_result df site_config = Inr () \<longleftrightarrow>
     list_all (row_within_tolerance site_config) df"
proof -
  define b where "b = battery site_config"
  let ?nn = "\<forall>r\<in>set df. - NUMERICAL_TOLERANCE \<le> grid_import_kw r \<and>
         - NUMERICAL_TOLERANCE \<le> grid_export_kw r \<and>
         - NUMERICAL_TOLERANCE \<le> battery_charge_kw r \<and>
         - NUMERICAL_TOLERANCE \<le> battery_discharge_kw r"
  have nn: "check_non_negative power_cols df = Inr () \<longleftrightarrow> ?nn"
    unfolding check_non_negative_ok by (auto simp: power_cols_def)
  have lo: "\<not> list_ex (\<lambda>r. soc_kwh r < min_soc_frac b * capacity_kwh b - NUMERICAL_TOLERANCE) df
      \<longleftrightarrow> (\<forall>r\<in>set df. min_soc_frac b * capacity_kwh b - NUMERICAL_TOLERANCE \<le> soc_kwh r)"
    by (rule not_list_ex_less)
  have hi: "\<not> list_ex (\<lambda>r. soc_kwh r > max_soc_frac b * capacity_kwh b + NUMERICAL_TOLERANCE) df
      \<longleftrightarrow> (\<forall>r\<in>set df. soc_kwh r \<le> max_soc_frac b * capacity_kwh b + NUMERICAL_TOLERANCE)"
    by (rule not_list_ex_greater)
  have ch: "\<not> list_ex (\<lambda>r. battery_charge_kw r > max_charge_kw b + NUMERICAL_TOLERANCE) df
      \<longleftrightarrow> (\<forall>r\<in>set df. battery_charge_kw r \<le> max_charge_kw b + NUMERICAL_TOLERANCE)"
    by (rule not_list_ex_greater)
  have di: "\<not> list_ex (\<lambda>r. battery_discharge_kw r > max_discharge_kw b + NUMERICAL_TOLERANCE) df
      \<longleftrightarrow> (\<forall>r\<in>set df. battery_discharge_kw r \<le> max_discharge_kw b + NUMERICAL_TOLERANCE)"
    by (rule not_list_ex_greater)
  note gi = check_grid_limit_ok [of "max_grid_import_kw site_config" grid_import_kw
      GridImportExceedsLimit df]
  note ge = check_grid_limit_ok [of "max_grid_export_kw site_config" grid_export_kw
      GridExportExceedsLimit df]
  have "validate_dispatch_result df site_config = Inr () \<longleftrightarrow>
      check_non_negative power_cols df = Inr () \<and>
      \<not> list_ex (\<lambda>r. soc_kwh r < min_soc_frac b * capacity_kwh b - NUMERICAL_TOLERANCE) df \<and>
      \<not> list_ex (\<lambda>r. soc_kwh r > max_soc_frac b * capacity_kwh b + NUMERICAL_TOLERANCE) df \<and>
      \<not> list_ex (\<lambda>r. battery_charge_kw r > max_charge_kw b + NUMERICAL_TOLERANCE) df \<and>
      \<not> list_ex (\<lambda>r. battery_discharge_kw r > max_discharge_kw b + NUMERICAL_TOLERANCE) df \<and>
      check_grid_limit (max_grid_import_kw site_config) grid_import_kw GridImportExceedsLimit df = Inr () \<and>
      check_grid_limit (max_grid_export_kw site_config) grid_export_kw GridExportExceedsLimit df = Inr ()"
    by (simp add: validate_dispatch_result_def Let_def b_def split: sum.splits)
  also have "\<dots> \<longleftrightarrow> list_all (row_within_tolerance site_config) df"
    unfolding nn lo hi ch di gi ge
    by (auto simp: list_all_iff row_within_tolerance_def b_def)
  finally show ?thesis .
qed

lemma validate_error_names:
  assumes "validate_dispatch_result df site_config = Inl e"
  shows "\<exists>m. e = ValidationError m \<and> message_holds site_config df m"
proof (cases "check_non_negative power_cols df")
  case (Inl e')
  with assms have "e' = e" by (simp add: validate_dispatch_result_def)
  with check_non_negative_error [OF Inl] obtain col get where
    e: "e = ValidationError (HasNegativeValues col)" and mem: "(col, get) \<in> set power_cols"
    and neg: "list_ex (\<lambda>r. get r < - NUMERICAL_TOLERANCE) df"
    by blast
  from mem neg
  have "list_ex (\<lambda>(c, get). c = col \<and> list_ex (\<lambda>r. get r < - NUMERICAL_TOLERANCE) df) power_cols"
    unfolding list_ex_iff [of _ power_cols] by blast
  with e show ?thesis by simp
next
  case (Inr u)
  with assms show ?thesis
    by (auto simp: validate_dispatch_result_def Let_def
        split: if_splits sum.splits dest!: check_grid_limit_error)
qed

text \<open>
  Claim C1, as amended. \<open>validate_dispatch_result\<close> checks six bounds, each relaxed by
  \<open>NUMERICAL_TOLERANCE = 1e-6\<close>: the four power columns at least \<open>-1e-6\<close>, the SOC
  within \<open>[min_soc - 1e-6, max_soc + 1e-6]\<close>, charge and discharge at most their power
  limit plus \<open>1e-6\<close>, and each grid flow at most its cap plus \<open>1e-6\<close> when the cap is set.
  It returns normally exactly when every row is within these relaxed bounds, and every
  \<open>ValidationError\<close> it raises names a column or a bound that some row breaks by more
  than the tolerance. It reads neither load nor generation nor the timestep, and checks
  neither the energy balance nor the SOC dynamics.
\<close>

theorem validate_dispatch_result_checks:
  "(validate_dispatch_result df site_config = Inr () \<longleftrightarrow>
      list_all (row_within_tolerance site_config) df) \<and>
   (\<forall>e. validate_dispatch_result df site_config = Inl e \<longrightarrow>
      (\<exists>m. e = ValidationError m \<and> message_holds site_config df m))"
  using validate_ok_iff validate_error_names by blast

theorem validate_dispatch_result_checks_witness:
  "validate_dispatch_result
     [\<lparr> grid_import_kw = 0, grid_export_kw = 0, battery_charge_kw = 0,
        battery_discharge_kw = 0, soc_kwh = 10 \<rparr>] example_site
     = Inl (ValidationError (SocAboveMaximum 9)) \<and>
   message_holds example_site
     [\<lparr> grid_import_kw = 0, grid_export_kw = 0, battery_charge_kw = 0,
        battery_discharge_kw = 0, soc_kwh = 10 \<rparr>] (SocAboveMaximum 9) \<and>
   \<not> list_all (row_within_tolerance example_site)
     [\<lparr> grid_import_kw = 0, grid_export_kw = 0, battery_charge_kw = 0,
        battery_discharge_kw = 0, soc_kwh = 10 \<rparr>]"
  using validate_dispatch_result_checks
    [of "[\<lparr> grid_import_kw = 0, grid_export_kw = 0, battery_charge_kw = 0,
        battery_discharge_kw = 0, soc_kwh = 10 \<rparr>]" example_site]
  by (simp add: validate_dispatch_result_def power_cols_def NUMERICAL_TOLERANCE_def
      check_grid_limit_def example_site_def example_battery_def)

text \<open>
  Claim C1 as stated fails: the validator accepts a one-row dispatch that charges 1 kW
  from nothing. With a load of 5 kW and no generation the energy balance is off by 6 kW,
  and the stored SOC of 5 kWh is not the 5 + 19/80 kWh that the dynamics give from the
  initial 5 kWh.
\<close>

theorem validate_accepts_unbalanced_dispatch:
  "validate_dispatch_result
     [\<lparr> grid_import_kw = 0, grid_export_kw = 0, battery_charge_kw = 1,
        battery_discharge_kw = 0, soc_kwh = 5 \<rparr>] example_site = Inr () \<and>
   energy_balance_residual 5 0
     \<lparr> grid_import_kw = 0, grid_export_kw = 0, battery_charge_kw = 1,
       battery_discharge_kw = 0, soc_kwh = 5 \<rparr> = 6 \<and>
   soc_dynamics example_battery (1 / 4)
     (initial_soc_frac example_battery * capacity_kwh example_battery)
     \<lparr> grid_import_kw = 0, grid_export_kw = 0, battery_charge_kw = 1,
       battery_discharge_kw = 0, soc_kwh = 5 \<rparr> = 5 + 19 / 80"
  by (simp add: validate_dispatch_result_def power_cols_def NUMERICAL_TOLERANCE_def
      check_grid_limit_def example_site_def example_battery_def
      energy_balance_residual_def soc_dynamics_def)

section \<open>The baseline dispatch against the invariants\<close>

text \<open>
  Where no site cap truncates a grid flow, the baseline keeps the energy balance exactly.
\<close>

lemma baseline_balance_unless_cap_binds:
  assumes wf: "baseline_input_ok ts site_config timestep_hours"
    and run: "compute_baseline_dispatch ts site_config timestep_hours = Inr ds"
    and t: "t < length ds"
    and imp: "cap_not_binding (max_grid_import_kw site_config) (grid_import_kw (ds ! t))"
    and exp: "cap_not_binding (max_grid_export_kw site_config) (grid_export_kw (ds ! t))"
  shows "energy_balance_residual (load_kw ts ! t) (pv_kw ts ! t) (ds ! t) = 0"
proof -
  from wf have ok: "SiteConfig_fields_ok site_config" and dt: "0 < timestep_hours"
    and lim: "soc_limits_ok (battery site_config)" and tsok: "timeseries_ok ts"
    by (simp_all add: baseline_input_ok_def)
  from run
  have run': "baseline_loop site_config timestep_hours None (zip (load_kw ts) (pv_kw ts)) = Inr ds"
    by (simp add: compute_baseline_dispatch_def)
  note f = baseline_loop_facts [OF ok dt lim initial_soc_in_range [OF ok lim] run']
  from f t have t': "t < length (zip (load_kw ts) (pv_kw ts))" by simp
  with f imp exp
  have "energy_balance_residual (fst (zip (load_kw ts) (pv_kw ts) ! t))
          (snd (zip (load_kw ts) (pv_kw ts) ! t)) (ds ! t) = 0"
    by blast
  with t' show ?thesis by simp
qed

lemma tolerance_positive: "0 < NUMERICAL_TOLERANCE"
  by (simp add: NUMERICAL_TOLERANCE_def)

lemma row_in_bounds_within_tolerance:
  "row_in_bounds site_config r \<Longrightarrow> row_within_tolerance site_config r"
  using tolerance_positive
  by (auto simp: row_in_bounds_def row_within_tolerance_def soc_in_range_def
      within_cap_def cap_within_tolerance_def split: option.splits)

text \<open>
  With positive efficiencies the baseline returns a dispatch for every well-formed input,
  every row is within the hard bounds, and the validator accepts it.
\<close>

lemma baseline_dispatch_in_bounds:
  assumes wf: "baseline_input_ok ts site_config timestep_hours"
    and eff: "0 < charge_efficiency (battery site_config)"
      "0 < discharge_efficiency (battery site_config)"
  shows "\<exists>ds. compute_baseline_dispatch ts site_config timestep_hours = Inr ds \<and>
           length ds = length (load_kw ts) \<and> list_all (row_in_bounds site_config) ds \<and>
           validate_dispatch_result ds site_config = Inr ()"
proof -
  from wf have ok: "SiteConfig_fields_ok site_config" and dt: "0 < timestep_hours"
    and lim: "soc_limits_ok (battery site_config)" and tsok: "timeseries_ok ts"
    by (simp_all add: baseline_input_ok_def)
  note rng = initial_soc_in_range [OF ok lim]
  from baseline_loop_total [OF ok dt lim eff rng] obtain ds where
    run: "baseline_loop site_config timestep_hours None (zip (load_kw ts) (pv_kw ts)) = Inr ds"
    by blast
  note f = baseline_loop_facts [OF ok dt lim rng run]
  from f have len: "length ds = length (load_kw ts)" using zip_rows_length [OF tsok] by simp
  from f have "\<forall>t<length ds. row_in_bounds site_config (ds ! t)" by simp
  then have bounds: "list_all (row_in_bounds site_config) ds"
    by (simp add: list_all_length)
  then have "list_all (row_within_tolerance site_config) ds"
    by (auto simp: list_all_iff intro: row_in_bounds_within_tolerance)
  then have "validate_dispatch_result ds site_config = Inr ()"
    by (simp add: validate_ok_iff)
  with run len bounds show ?thesis by (simp add: compute_baseline_dispatch_def)
qed

text \<open>
  Claim C2 fails where an import cap binds. One step of 15 minutes with a load of 10 kW,
  no generation, the example battery and \<open>max_grid_import_kw = 1\<close>: the battery
  discharges its 5 kW, the remaining deficit of 5 kW is cut to the cap of 1 kW, and the
  returned row leaves 4 kW of load unserved.
\<close>

theorem baseline_import_cap_breaks_balance:
  "baseline_input_ok deficit_timeseries (example_site \<lparr> max_grid_import_kw := Some 1 \<rparr>) (1 / 4) \<and>
   compute_baseline_dispatch deficit_timeseries
     (example_site \<lparr> max_grid_import_kw := Some 1 \<rparr>) (1 / 4) =
     Inr [\<lparr> grid_import_kw = 1, grid_export_kw = 0, battery_charge_kw = 0,
             battery_discharge_kw = 5, soc_kwh = 70 / 19 \<rparr>] \<and>
   energy_balance_residual 10 0
     \<lparr> grid_import_kw = 1, grid_export_kw = 0, battery_charge_kw = 0,
       battery_discharge_kw = 5, soc_kwh = 70 / 19 \<rparr> = 4"
  by (simp add: input_ok_eval baseline_eval deficit_timeseries_def energy_balance_residual_def)

text \<open>
  Claim C6 fails for a battery whose \<open>discharge_efficiency\<close> is 0, a value the schema
  admits (\<open>ge=0\<close>): the input is well-formed, and the first step divides
  \<open>timestep_hours\<close> by the efficiency and raises \<open>ZeroDivisionError\<close>.
\<close>

theorem baseline_zero_efficiency_raises:
  "baseline_input_ok deficit_timeseries
     (example_site \<lparr> battery := example_battery \<lparr> discharge_efficiency := 0 \<rparr> \<rparr>) (1 / 4) \<and>
   compute_baseline_dispatch deficit_timeseries
     (example_site \<lparr> battery := example_battery \<lparr> discharge_efficiency := 0 \<rparr> \<rparr>) (1 / 4) =
     Inl ZeroDivisionError"
  by (simp add: input_ok_eval baseline_eval deficit_timeseries_def)

section \<open>Metrics\<close>

lemma series_max_nonempty: "d \<noteq> [] \<Longrightarrow> \<exists>m. series_max (map f d) = Some m"
  by (cases d) simp_all

lemma compute_cost_nonempty:
  "d \<noteq> [] \<Longrightarrow> \<exists>c. compute_cost d site_config run_config timestep_hours = Some c"
  using series_max_nonempty [of d grid_import_kw]
  by (auto simp: compute_cost_def Let_def)

text \<open>
  Claim C9, as amended. For every non-empty dispatch \<open>d\<close> (one row at least) and every
  configuration, \<open>compute_metrics(d, d, ...)\<close> returns \<open>savings_gbp = 0\<close> and
  \<open>peak_reduction_kw = 0\<close>.
\<close>

theorem compute_metrics_self:
  assumes "d \<noteq> []"
  shows "savings_gbp (compute_metrics d d site_config run_config timestep_hours) = Some 0 \<and>
         peak_reduction_kw (compute_metrics d d site_config run_config timestep_hours) = Some 0"
proof -
  from compute_cost_nonempty [OF assms] obtain c where
    "compute_cost d site_config run_config timestep_hours = Some c" by blast
  moreover from series_max_nonempty [OF assms] obtain m where
    "series_max (map grid_import_kw d) = Some m" by blast
  ultimately show ?thesis
    by (simp add: compute_metrics_def Let_def nan_minus_def)
qed

theorem compute_metrics_self_witness:
  "[one_priced_row] \<noteq> [] \<and>
   savings_gbp (compute_metrics [one_priced_row] [one_priced_row] example_site example_run (1 / 4))
     = Some 0 \<and>
   peak_reduction_kw (compute_metrics [one_priced_row] [one_priced_row] example_site example_run (1 / 4))
     = Some 0 \<and>
   baseline_cost_gbp (compute_metrics [one_priced_row] [one_priced_row] example_site example_run (1 / 4))
     = Some (3 / 40)"
  using compute_metrics_self [of "[one_priced_row]" example_site example_run "1 / 4"]
  by (simp add: compute_metrics_def compute_cost_def Let_def one_priced_row_def
      example_run_def example_tariff_def example_site_def example_battery_def)

text \<open>
  Claim C9 as stated fails at the empty dispatch: the peak of an empty import column is
  \<open>nan\<close>, so \<open>peak_reduction_kw\<close> is \<open>nan - nan = nan\<close>, not 0; with demand charges
  enabled the cost, and with it \<open>savings_gbp\<close>, is \<open>nan\<close> as well.
\<close>

theorem compute_metrics_empty_is_nan:
  "peak_reduction_kw (compute_metrics [] [] example_site example_run (1 / 4)) = None \<and>
   savings_gbp (compute_metrics [] []
      example_site (example_run \<lparr> tariff := example_tariff \<lparr> demand_charge_enabled := True \<rparr> \<rparr>)
      (1 / 4)) = None"
  by (simp add: compute_metrics_def compute_cost_def Let_def nan_minus_def
      example_run_def example_tariff_def)

section \<open>Operating-point selection and the epsilon sweep\<close>

lemma fold_min_by:
  "fold (\<lambda>item best. if key item < key best then item else best) xs x = m \<Longrightarrow>
     m \<in> set (x # xs) \<and> (\<forall>y\<in>set (x # xs). (key m :: real) \<le> key y)"
proof (induction xs arbitrary: x)
  case Nil
  then show ?case by simp
next
  case (Cons a xs)
  show ?case
  proof (cases "key a < key x")
    case True
    with Cons.prems have "fold (\<lambda>item best. if key item < key best then item else best) xs a = m"
      by simp
    from Cons.IH [OF this] True show ?thesis by auto
  next
    case False
    with Cons.prems have "fold (\<lambda>item best. if key item < key best then item else best) xs x = m"
      by simp
    from Cons.IH [OF this] False show ?thesis by auto
  qed
qed

lemma fold_max_by:
  "fold (\<lambda>item best. if key item > key best then item else best) xs x = m \<Longrightarrow>
     m \<in> set (x # xs) \<and> (\<forall>y\<in>set (x # xs). (key y :: real) \<le> key m)"
proof (induction xs arbitrary: x)
  case Nil
  then show ?case by simp
next
  case (Cons a xs)
  show ?case
  proof (cases "key a > key x")
    case True
    with Cons.prems have "fold (\<lambda>item best. if key item > key best then item else best) xs a = m"
      by simp
    from Cons.IH [OF this] True show ?thesis by auto
  next
    case False
    with Cons.prems have "fold (\<lambda>item best. if key item > key best then item else best) xs x = m"
      by simp
    from Cons.IH [OF this] False show ?thesis by auto
  qed
qed

lemma py_min_by_least:
  assumes "xs \<noteq> []"
  shows "\<exists>m. py_min_by key xs = Inr m \<and> m \<in> set xs \<and> (\<forall>y\<in>set xs. key m \<le> key y)"
proof -
  from assms obtain x rest where xs: "xs = x # rest" by (cases xs) auto
  from fold_min_by [OF refl, of key rest x] show ?thesis by (simp add: xs)
qed

lemma py_max_by_greatest:
  assumes "xs \<noteq> []"
  shows "\<exists>m. py_max_by key xs = Inr m \<and> m \<in> set xs \<and> (\<forall>y\<in>set xs. key y \<le> key m)"
proof -
  from assms obtain x rest where xs: "xs = x # rest" by (cases xs) auto
  from fold_max_by [OF refl, of key rest x] show ?thesis by (simp add: xs)
qed

text \<open>The divisors of \<open>score\<close> are positive, so the division is the one Python computes.\<close>

lemma select_bounds:
  assumes "front \<noteq> []"
  shows "\<exists>e_min e_max p_min p_max.
           py_min_by id (map energy_cost front) = Inr e_min \<and>
           py_max_by id (map energy_cost front) = Inr e_max \<and>
           py_min_by id (map peak_demand_kw front) = Inr p_min \<and>
           py_max_by id (map peak_demand_kw front) = Inr p_max \<and>
           0 < e_max - e_min + 1 / 1000000000 \<and> 0 < p_max - p_min + 1 / 1000000000"
proof -
  from assms have ne: "map energy_cost front \<noteq> []" "map peak_demand_kw front \<noteq> []" by simp_all
  from py_min_by_least [OF ne(1), of id] obtain e_min where
    e_min: "py_min_by id (map energy_cost front) = Inr e_min"
    and e_lo: "\<forall>y\<in>set (map energy_cost front). e_min \<le> y" by auto
  from py_max_by_greatest [OF ne(1), of id] obtain e_max where
    e_max: "py_max_by id (map energy_cost front) = Inr e_max"
    and e_hi: "e_max \<in> set (map energy_cost front)" by auto
  from py_min_by_least [OF ne(2), of id] obtain p_min where
    p_min: "py_min_by id (map peak_demand_kw front) = Inr p_min"
    and p_lo: "\<forall>y\<in>set (map peak_demand_kw front). p_min \<le> y" by auto
  from py_max_by_greatest [OF ne(2), of id] obtain p_max where
    p_max: "py_max_by id (map peak_demand_kw front) = Inr p_max"
    and p_hi: "p_max \<in> set (map peak_demand_kw front)" by auto
  from e_lo e_hi have "e_min \<le> e_max" by blast
  moreover from p_lo p_hi have "p_min \<le> p_max" by blast
  ultimately show ?thesis using e_min e_max p_min p_max by simp
qed

text \<open>
  Claim C7. For every non-empty front, \<open>select_operating_point(front, 0)\<close> returns a
  point of the front whose \<open>energy_cost\<close> is the minimum over the front, and
  \<open>select_operating_point(front, 1)\<close> returns a point of the front whose
  \<open>peak_demand_kw\<close> is the minimum over the front.
\<close>

theorem select_operating_point_boundary:
  assumes "front \<noteq> []"
  shows "\<exists>p0 p1.
           select_operating_point front 0 = Inr p0 \<and> p0 \<in> set front \<and>
           energy_cost p0 = Min (energy_cost ` set front) \<and>
           select_operating_point front 1 = Inr p1 \<and> p1 \<in> set front \<and>
           peak_demand_kw p1 = Min (peak_demand_kw ` set front)"
proof -
  from select_bounds [OF assms] obtain e_min e_max p_min p_max where
    b: "py_min_by id (map energy_cost front) = Inr e_min"
       "py_max_by id (map energy_cost front) = Inr e_max"
       "py_min_by id (map peak_demand_kw front) = Inr p_min"
       "py_max_by id (map peak_demand_kw front) = Inr p_max"
    and de: "0 < e_max - e_min + 1 / 1000000000"
    and dp: "0 < p_max - p_min + 1 / 1000000000"
    by blast
  from py_min_by_least [OF assms, of "score 0 e_min e_max p_min p_max"] obtain p0 where
    p0: "py_min_by (score 0 e_min e_max p_min p_max) front = Inr p0" "p0 \<in> set front"
    and least0: "\<forall>q\<in>set front. score 0 e_min e_max p_min p_max p0 \<le> score 0 e_min e_max p_min p_max q"
    by blast
  from py_min_by_least [OF assms, of "score 1 e_min e_max p_min p_max"] obtain p1 where
    p1: "py_min_by (score 1 e_min e_max p_min p_max) front = Inr p1" "p1 \<in> set front"
    and least1: "\<forall>q\<in>set front. score 1 e_min e_max p_min p_max p1 \<le> score 1 e_min e_max p_min p_max q"
    by blast
  have "energy_cost p0 \<le> energy_cost q" if "q \<in> set front" for q
  proof -
    from least0 that
    have "(energy_cost p0 - e_min) / (e_max - e_min + 1 / 1000000000)
            \<le> (energy_cost q - e_min) / (e_max - e_min + 1 / 1000000000)"
      by (simp add: score_def)
    with de show ?thesis by (simp add: divide_le_cancel)
  qed
  then have e0: "energy_cost p0 = Min (energy_cost ` set front)"
    using p0(2) by (intro Min_eqI [symmetric]) auto
  have "peak_demand_kw p1 \<le> peak_demand_kw q" if "q \<in> set front" for q
  proof -
    from least1 that
    have "(peak_demand_kw p1 - p_min) / (p_max - p_min + 1 / 1000000000)
            \<le> (peak_demand_kw q - p_min) / (p_max - p_min + 1 / 1000000000)"
      by (simp add: score_def)
    with dp show ?thesis by (simp add: divide_le_cancel)
  qed
  then have e1: "peak_demand_kw p1 = Min (peak_demand_kw ` set front)"
    using p1(2) by (intro Min_eqI [symmetric]) auto
  from b p0 p1 e0 e1 show ?thesis
    by (simp add: select_operating_point_def)
qed

theorem select_operating_point_boundary_witness:
  "three_point_front \<noteq> [] \<and>
   select_operating_point three_point_front 0 =
     Inr \<lparr> energy_cost = 7, peak_demand_kw = 5, total_cost = 82, dispatch = None \<rparr> \<and>
   select_operating_point three_point_front 1 =
     Inr \<lparr> energy_cost = 10, peak_demand_kw = 2, total_cost = 40, dispatch = None \<rparr> \<and>
   Min (energy_cost ` set three_point_front) = 7 \<and>
   Min (peak_demand_kw ` set three_point_front) = 2"
  using select_operating_point_boundary [of three_point_front]
  by (simp add: three_point_front_def select_operating_point_def score_def Let_def)

lemma successively_nth:
  "successively P xs \<Longrightarrow> Suc i < length xs \<Longrightarrow> P (xs ! i) (xs ! Suc i)"
proof (induction P xs arbitrary: i rule: successively.induct)
  case (3 P x y xs)
  then show ?case by (cases i) simp_all
qed simp_all

lemma sweep_step_apart:
  "successively energy_apart front \<Longrightarrow> successively energy_apart (sweep_step front point)"
  by (cases point)
     (auto simp: sweep_step_def successively_append_iff energy_apart_def last_conv_nth hd_conv_nth
       split: if_splits)

lemma sweep_apart:
  "successively energy_apart front \<Longrightarrow> successively energy_apart (sweep solve epsilons front)"
  by (induction epsilons arbitrary: front) (simp_all add: sweep_step_apart)

lemma sweep_accepted:
  "sweep solve epsilons front =
     front @ accepted_points (last_accepted front) (List.map_filter solve epsilons)"
proof (induction epsilons arbitrary: front)
  case Nil
  then show ?case by (simp add: List.map_filter_simps)
next
  case (Cons eps epsilons)
  show ?case
  proof (cases "solve eps")
    case None
    then show ?thesis using Cons.IH [of front]
      by (simp add: sweep_step_def List.map_filter_simps)
  next
    case (Some p)
    show ?thesis
    proof (cases "front = [] \<or> 1 / 1000000 < \<bar>energy_cost p - energy_cost (last front)\<bar>")
      case True
      then have "sweep_step front (solve eps) = front @ [p]"
        using Some by (simp add: sweep_step_def)
      moreover from True
      have "accepted_points (last_accepted front) (p # List.map_filter solve epsilons) =
              p # accepted_points (Some p) (List.map_filter solve epsilons)"
        by (auto simp: last_accepted_def)
      ultimately show ?thesis using Some Cons.IH [of "front @ [p]"]
        by (simp add: List.map_filter_simps last_accepted_def)
    next
      case False
      then have "sweep_step front (solve eps) = front"
        using Some by (simp add: sweep_step_def)
      moreover from False
      have "accepted_points (last_accepted front) (p # List.map_filter solve epsilons) =
              accepted_points (last_accepted front) (List.map_filter solve epsilons)"
        by (auto simp: last_accepted_def)
      ultimately show ?thesis using Some Cons.IH [of front]
        by (simp add: List.map_filter_simps)
    qed
  qed
qed

text \<open>
  Claim C8. In the sweep a solved point is appended exactly when the front is empty or its
  energy cost is more than \<open>1e-6\<close> away from that of the last accepted point (an
  unsolved point is dropped); the swept front is therefore the spec's left-to-right
  selection over the solved points, and any two consecutive points of the front that
  \<open>compute_pareto_front\<close> returns differ in energy cost by more than \<open>1e-6\<close>.
\<close>

theorem sweep_collapses_near_duplicates:
  "sweep_step front None = front \<and>
   sweep_step front (Some p) =
     (if front = [] \<or> 1 / 1000000 < \<bar>energy_cost p - energy_cost (last front)\<bar>
      then front @ [p] else front) \<and>
   sweep solve epsilons [] = accepted_points None (List.map_filter solve epsilons) \<and>
   (compute_pareto_front solve load pv n_points = Inr result \<longrightarrow>
      (\<forall>i. Suc i < length result \<longrightarrow>
         1 / 1000000 < \<bar>energy_cost (result ! Suc i) - energy_cost (result ! i)\<bar>))"
proof -
  have "successively energy_apart result"
    if "compute_pareto_front solve load pv n_points = Inr result"
  proof -
    from that obtain swept where "result = sweep solve swept []"
      by (auto simp: compute_pareto_front_def Let_def split: sum.splits)
    then show ?thesis using sweep_apart [of "[]" solve swept] by simp
  qed
  then have "compute_pareto_front solve load pv n_points = Inr result \<longrightarrow>
      (\<forall>i. Suc i < length result \<longrightarrow>
         1 / 1000000 < \<bar>energy_cost (result ! Suc i) - energy_cost (result ! i)\<bar>)"
    using successively_nth [of energy_apart result] by (auto simp: energy_apart_def)
  moreover have "sweep solve epsilons [] = accepted_points None (List.map_filter solve epsilons)"
    using sweep_accepted [of solve epsilons "[]"] by (simp add: last_accepted_def)
  ultimately show ?thesis by (simp add: sweep_step_def)
qed

lemma stepped_bisect: "bisect_peak 20 stepped_solver 0 3 = (3 - 3 / 2 ^ 20, 3)"
  by (simp add: eval_nat_numeral stepped_solver_def Let_def)

lemma stepped_front:
  "compute_pareto_front stepped_solver [3] [0] 4 =
     Inr [\<lparr> energy_cost = 7, peak_demand_kw = 3, total_cost = 52, dispatch = None \<rparr>,
          \<lparr> energy_cost = 13 / 2, peak_demand_kw = 7 / 2, total_cost = 59, dispatch = None \<rparr>,
          \<lparr> energy_cost = 6, peak_demand_kw = 4, total_cost = 66, dispatch = None \<rparr>]"
proof -
  have eps: "linspace 3 (9 / 2) 4 = Inr [3, 7 / 2, 4, 9 / 2]"
    by (simp add: linspace_def eval_nat_numeral upt_rec)
  have "sweep stepped_solver [3, 7 / 2, 4, 9 / 2] [] =
     [\<lparr> energy_cost = 7, peak_demand_kw = 3, total_cost = 52, dispatch = None \<rparr>,
      \<lparr> energy_cost = 13 / 2, peak_demand_kw = 7 / 2, total_cost = 59, dispatch = None \<rparr>,
      \<lparr> energy_cost = 6, peak_demand_kw = 4, total_cost = 66, dispatch = None \<rparr>]"
    by (simp add: sweep_step_def stepped_solver_def)
  with eps show ?thesis
    by (simp add: compute_pareto_front_def Let_def stepped_bisect stepped_solver_def)
qed

theorem sweep_collapses_near_duplicates_witness:
  "compute_pareto_front stepped_solver [3] [0] 4 =
     Inr [\<lparr> energy_cost = 7, peak_demand_kw = 3, total_cost = 52, dispatch = None \<rparr>,
          \<lparr> energy_cost = 13 / 2, peak_demand_kw = 7 / 2, total_cost = 59, dispatch = None \<rparr>,
          \<lparr> energy_cost = 6, peak_demand_kw = 4, total_cost = 66, dispatch = None \<rparr>] \<and>
   (1 / 1000000 :: real) < \<bar>13 / 2 - 7\<bar> \<and> (1 / 1000000 :: real) < \<bar>6 - 13 / 2\<bar> \<and>
   sweep_step
     [\<lparr> energy_cost = 6, peak_demand_kw = 4, total_cost = 66, dispatch = None \<rparr>]
     (stepped_solver (9 / 2)) =
     [\<lparr> energy_cost = 6, peak_demand_kw = 4, total_cost = 66, dispatch = None \<rparr>]"
  using sweep_collapses_near_duplicates
    [of "[\<lparr> energy_cost = 6, peak_demand_kw = 4, total_cost = 66, dispatch = None \<rparr>]"
        "\<lparr> energy_cost = 6, peak_demand_kw = 4, total_cost = 66, dispatch = None \<rparr>"
        stepped_solver "[3, 7 / 2, 4, 9 / 2]" "[3]" "[0]" 4
        "[\<lparr> energy_cost = 7, peak_demand_kw = 3, total_cost = 52, dispatch = None \<rparr>,
          \<lparr> energy_cost = 13 / 2, peak_demand_kw = 7 / 2, total_cost = 59, dispatch = None \<rparr>,
          \<lparr> energy_cost = 6, peak_demand_kw = 4, total_cost = 66, dispatch = None \<rparr>]"]
    stepped_front
  by (simp add: stepped_solver_def)

section \<open>The model builder\<close>

lemma eval_var [simp]: "eval_expr x (var_expr v) = x v"
  by (simp add: eval_expr_def var_expr_def)

lemma eval_const [simp]: "eval_expr x (const_expr c) = c"
  by (simp add: eval_expr_def const_expr_def)

lemma eval_add [simp]: "eval_expr x (add_expr e f) = eval_expr x e + eval_expr x f"
  by (simp add: eval_expr_def add_expr_def)

lemma eval_scale [simp]: "eval_expr x (scale_expr c e) = c * eval_expr x e"
proof -
  have "sum_list (map (\<lambda>(a, v). a * x v) (map (\<lambda>(a, v). (c * a, v)) ts))
          = c * sum_list (map (\<lambda>(a, v). a * x v) ts)" for ts :: "(real \<times> variable) list"
    by (induction ts) (auto simp: algebra_simps)
  then show ?thesis by (simp add: eval_expr_def scale_expr_def algebra_simps)
qed

lemma eval_sub [simp]: "eval_expr x (sub_expr e f) = eval_expr x e - eval_expr x f"
  by (simp add: sub_expr_def)

lemma eval_foldl_add:
  "eval_expr x (foldl add_expr e es) = eval_expr x e + sum_list (map (eval_expr x) es)"
  by (induction es arbitrary: e) simp_all

lemma eval_sum_expr: "eval_expr x (sum_expr es) = sum_list (map (eval_expr x) es)"
  by (simp add: sum_expr_def eval_foldl_add)

lemma sum_list_upt: "sum_list (map f [0 ..< T]) = (\<Sum>t<T. (f t :: real))"
  by (simp add: sum_list_sum_nth atLeast0LessThan)

lemma eval_objective_expr:
  "eval_expr x (objective_expr T import_price export_price dt degradation_rate demand_rate enabled)
     = spec_objective x T import_price export_price dt degradation_rate demand_rate enabled"
proof -
  have imp: "sum_list (map (eval_expr x) (map (\<lambda>t. scale_expr dt
                (scale_expr (import_price ! t) (var_expr (GridImport t)))) [0 ..< T]))
              = (\<Sum>t<T. x (GridImport t) * import_price ! t * dt)"
    by (simp add: comp_def sum_list_upt mult_ac)
  have exp: "sum_list (map (eval_expr x) (map (\<lambda>t. scale_expr dt
                (scale_expr (export_price ! t) (var_expr (GridExport t)))) [0 ..< T]))
              = (\<Sum>t<T. x (GridExport t) * export_price ! t * dt)"
    by (simp add: comp_def sum_list_upt mult_ac)
  have deg: "sum_list (map (eval_expr x) (map (\<lambda>t. scale_expr degradation_rate
                (scale_expr dt (add_expr (var_expr (BatteryCharge t))
                   (var_expr (BatteryDischarge t))))) [0 ..< T]))
              = degradation_rate * (\<Sum>t<T. (x (BatteryCharge t) + x (BatteryDischarge t)) * dt)"
    by (simp add: comp_def sum_list_upt sum_distrib_left mult_ac)
  show ?thesis
    unfolding objective_expr_def spec_objective_def Let_def
    by (simp add: eval_sum_expr imp exp deg mult.commute del: map_map)
qed

lemma fold_keeps:
  "(\<And>t m. P m \<Longrightarrow> P (g t m)) \<Longrightarrow> P m \<Longrightarrow> P (fold g ts m)"
  by (induction ts arbitrary: m) simp_all

lemma expr_vars_simps [simp]:
  "expr_vars (const_expr c) = []"
  "expr_vars (var_expr v) = [v]"
  "expr_vars (scale_expr c e) = expr_vars e"
  "expr_vars (add_expr e f) = expr_vars e @ expr_vars f"
  "expr_vars (sub_expr e f) = expr_vars e @ expr_vars f"
  by (simp_all add: expr_vars_def const_expr_def var_expr_def scale_expr_def add_expr_def
      sub_expr_def comp_def case_prod_beta)

lemma peak_free_add_constraints:
  "peak_free vs m \<Longrightarrow> PeakDemand \<notin> set (expr_vars lhs) \<Longrightarrow> PeakDemand \<notin> set (expr_vars rhs) \<Longrightarrow>
     peak_free vs (add_constraints m name lhs sign rhs)"
  by (simp add: peak_free_def add_constraints_def mentions_def)

lemma peak_free_site_balance:
  "peak_free vs m \<Longrightarrow> peak_free vs (add_site_balance m T load pv)"
  unfolding add_site_balance_def
  by (rule fold_keeps) (simp_all add: peak_free_add_constraints)

lemma peak_free_soc_dynamics_loop:
  "peak_free vs m \<Longrightarrow> soc_dynamics_loop m b dt ts = Inr m' \<Longrightarrow> peak_free vs m'"
proof (induction ts arbitrary: m)
  case Nil
  then show ?case by simp
next
  case (Cons t ts)
  from Cons.prems(2) obtain m1 where
    m1: "soc_dynamics_constraint m b dt t = Inr m1" and rest: "soc_dynamics_loop m1 b dt ts = Inr m'"
    by (auto split: sum.splits)
  from m1 Cons.prems(1) have "peak_free vs m1"
    by (auto simp: soc_dynamics_constraint_def Let_def split: if_splits
        intro!: peak_free_add_constraints)
  from Cons.IH [OF this rest] show ?case .
qed

lemma peak_free_battery:
  assumes "peak_free vs m" "add_battery_constraints m T b dt = Inr m'"
  shows "peak_free vs m'"
proof -
  let ?m1 = "fold (\<lambda>t m.
                add_constraints
                  (add_constraints m (''soc_min_'', t)
                     (var_expr (Soc t)) GreaterEq (const_expr (min_soc_frac b * capacity_kwh b)))
                  (''soc_max_'', t) (var_expr (Soc t)) LessEq
                  (const_expr (max_soc_frac b * capacity_kwh b)))
              [0 ..< T] m"
  let ?m2 = "fold (\<lambda>t m.
                add_constraints
                  (add_constraints m (''charge_limit_'', t)
                     (var_expr (BatteryCharge t)) LessEq (const_expr (max_charge_kw b)))
                  (''discharge_limit_'', t)
                  (var_expr (BatteryDischarge t)) LessEq (const_expr (max_discharge_kw b)))
              [0 ..< T] ?m1"
  have "peak_free vs ?m1"
    by (rule fold_keeps) (simp_all add: assms(1) peak_free_add_constraints)
  then have "peak_free vs ?m2"
    by (rule fold_keeps [rotated]) (simp_all add: peak_free_add_constraints)
  moreover from assms(2) have "soc_dynamics_loop ?m2 b dt [0 ..< T] = Inr m'"
    by (simp add: add_battery_constraints_def Let_def)
  ultimately show ?thesis by (rule peak_free_soc_dynamics_loop)
qed

lemma peak_free_grid:
  "peak_free vs m \<Longrightarrow> peak_free vs (add_grid_constraints m T site)"
  unfolding add_grid_constraints_def Let_def
  by (auto split: option.splits intro!: fold_keeps [where P = "peak_free vs"]
      peak_free_add_constraints)

lemma fold_peak_constraints:
  "fold (\<lambda>t m. add_constraints m (''peak_ge_import_'', t)
           (var_expr PeakDemand) GreaterEq (var_expr (GridImport t))) ts m =
     m \<lparr> constraints := constraints m @
           map (\<lambda>t. \<lparr> con_name = (''peak_ge_import_'', t), con_lhs = var_expr PeakDemand,
                 con_sign = GreaterEq, con_rhs = var_expr (GridImport t) \<rparr>) ts \<rparr>"
  by (induction ts arbitrary: m) (simp_all add: add_constraints_def)

lemma filter_peak_constraints:
  "filter (mentions PeakDemand) (peak_constraints T) = peak_constraints T"
  by (simp add: peak_constraints_def mentions_def filter_map comp_def)

lemma peak_free_start:
  "peak_free (base_variables T)
     (add_variables (add_variables (add_variables (add_variables
        (add_variables new_model ''grid_import_kw'' (Some T)) ''grid_export_kw'' (Some T))
        ''battery_charge_kw'' (Some T)) ''battery_discharge_kw'' (Some T)) ''soc_kwh'' (Some T))"
  by (simp add: peak_free_def add_variables_def new_model_def base_variables_def)

lemma build_model_structure:
  assumes built: "build_model site run ts = Inr m"
  shows "\<exists>import_price export_price.
           price_series (import_price_gbp_per_kwh ts)
             (flat_import_price_gbp_per_kwh (tariff run)) (length (load_kw ts))
             ''No import price provided in timeseries or tariff config'' = Inr import_price \<and>
           price_series (export_price_gbp_per_kwh ts)
             (flat_export_price_gbp_per_kwh (tariff run)) (length (load_kw ts))
             ''No export price provided in timeseries or tariff config'' = Inr export_price \<and>
           objective m =
             Some (objective_expr (length (load_kw ts)) import_price export_price
                     (real_of_int (timestep_minutes run) / 60)
                     (degradation_cost_gbp_per_kwh (battery site))
                     (if demand_charge_enabled (tariff run)
                      then demand_charge_gbp_per_kw (tariff run) else 0)
                     (demand_charge_enabled (tariff run))) \<and>
           objective_sense m = Some ''min'' \<and>
           (if demand_charge_enabled (tariff run)
            then variables m = base_variables (length (load_kw ts)) @ [peak_variable] \<and>
                 filter (mentions PeakDemand) (constraints m) = peak_constraints (length (load_kw ts))
            else variables m = base_variables (length (load_kw ts)) \<and>
                 filter (mentions PeakDemand) (constraints m) = [])"
proof -
  define T where "T = length (load_kw ts)"
  define dt where "dt = real_of_int (timestep_minutes run) / 60"
  define m0 where "m0 = add_site_balance
     (add_variables (add_variables (add_variables (add_variables
        (add_variables new_model ''grid_import_kw'' (Some T)) ''grid_export_kw'' (Some T))
        ''battery_charge_kw'' (Some T)) ''battery_discharge_kw'' (Some T)) ''soc_kwh'' (Some T))
     T (load_kw ts) (pv_kw ts)"
  from built obtain import_price export_price m1 where
    pi: "price_series (import_price_gbp_per_kwh ts)
             (flat_import_price_gbp_per_kwh (tariff run)) T
             ''No import price provided in timeseries or tariff config'' = Inr import_price"
    and pe: "price_series (export_price_gbp_per_kwh ts)
             (flat_export_price_gbp_per_kwh (tariff run)) T
             ''No export price provided in timeseries or tariff config'' = Inr export_price"
    and m1: "add_battery_constraints m0 T (battery site) dt = Inr m1"
    and m: "m = add_objective
              (if demand_charge_enabled (tariff run)
               then fold (\<lambda>t m. add_constraints m (''peak_ge_import_'', t)
                            (var_expr PeakDemand) GreaterEq (var_expr (GridImport t)))
                      [0 ..< T] (add_variables (add_grid_constraints m1 T site) ''peak_demand_kw'' None)
               else add_grid_constraints m1 T site)
              T import_price export_price dt
              (degradation_cost_gbp_per_kwh (battery site))
              (if demand_charge_enabled (tariff run)
               then demand_charge_gbp_per_kw (tariff run) else 0)
              (demand_charge_enabled (tariff run))"
    unfolding build_model_def Let_def T_def dt_def m0_def
    by (auto split: sum.splits)
  have "peak_free (base_variables T) m0"
    unfolding m0_def by (rule peak_free_site_balance [OF peak_free_start])
  from peak_free_battery [OF this m1] have "peak_free (base_variables T) m1" .
  then have m2: "peak_free (base_variables T) (add_grid_constraints m1 T site)"
    by (rule peak_free_grid)
  have "if demand_charge_enabled (tariff run)
        then variables m = base_variables T @ [peak_variable] \<and>
             filter (mentions PeakDemand) (constraints m) = peak_constraints T
        else variables m = base_variables T \<and>
             filter (mentions PeakDemand) (constraints m) = []"
    using m2
    by (simp add: m add_objective_def fold_peak_constraints add_variables_def peak_free_def
        peak_variable_def filter_peak_constraints [unfolded peak_constraints_def]
        peak_constraints_def)
  moreover have "objective m = Some (objective_expr T import_price export_price dt
                     (degradation_cost_gbp_per_kwh (battery site))
                     (if demand_charge_enabled (tariff run)
                      then demand_charge_gbp_per_kw (tariff run) else 0)
                     (demand_charge_enabled (tariff run)))"
    and "objective_sense m = Some ''min''"
    by (simp_all add: m add_objective_def)
  ultimately show ?thesis using pi pe unfolding T_def dt_def by blast
qed

lemma soc_dynamics_loop_returns:
  "discharge_efficiency b \<noteq> 0 \<Longrightarrow> \<exists>m'. soc_dynamics_loop m b dt ts = Inr m'"
  by (induction ts arbitrary: m) (simp_all add: soc_dynamics_constraint_def Let_def)

lemma build_model_returns:
  assumes "price_series (import_price_gbp_per_kwh ts)
             (flat_import_price_gbp_per_kwh (tariff run)) (length (load_kw ts))
             ''No import price provided in timeseries or tariff config'' = Inr import_price"
    and "price_series (export_price_gbp_per_kwh ts)
             (flat_export_price_gbp_per_kwh (tariff run)) (length (load_kw ts))
             ''No export price provided in timeseries or tariff config'' = Inr export_price"
    and "discharge_efficiency (battery site) \<noteq> 0"
  shows "\<exists>m. build_model site run ts = Inr m"
proof -
  from soc_dynamics_loop_returns [OF assms(3)]
  have "\<exists>m'. add_battery_constraints m0 T (battery site) dt = Inr m'" for m0 T dt
    by (simp add: add_battery_constraints_def Let_def)
  then show ?thesis using assms(1,2)
    unfolding build_model_def Let_def
    by (auto split: sum.splits) (metis sum.distinct(1))
qed

text \<open>
  Claim C4. Whenever \<open>build_model\<close> returns a model, its objective has the sense
  \<open>min\<close> and, as a function of the decision variables, is
  \<open>\<Sum> import[t] * price_import[t] * dt - \<Sum> export[t] * price_export[t] * dt
     + degradation_rate * \<Sum> (charge[t] + discharge[t]) * dt\<close>, plus
  \<open>peak * demand_rate\<close> exactly when demand charges are enabled, over the prices that
  lines 30 to 43 select. With demand charges enabled the model has, beside the five
  variable arrays, the one scalar variable \<open>peak_demand_kw\<close>, and the constraints that
  mention it are the \<open>T\<close> constraints \<open>peak \<ge> import[t]\<close>; with demand charges disabled it
  has neither.
\<close>

theorem build_model_objective:
  assumes built: "build_model site run ts = Inr m"
  shows "\<exists>import_price export_price obj.
           price_series (import_price_gbp_per_kwh ts)
             (flat_import_price_gbp_per_kwh (tariff run)) (length (load_kw ts))
             ''No import price provided in timeseries or tariff config'' = Inr import_price \<and>
           price_series (export_price_gbp_per_kwh ts)
             (flat_export_price_gbp_per_kwh (tariff run)) (length (load_kw ts))
             ''No export price provided in timeseries or tariff config'' = Inr export_price \<and>
           objective m = Some obj \<and> objective_sense m = Some ''min'' \<and>
           (\<forall>x. eval_expr x obj =
              spec_objective x (length (load_kw ts)) import_price export_price
                (real_of_int (timestep_minutes run) / 60)
                (degradation_cost_gbp_per_kwh (battery site))
                (demand_charge_gbp_per_kw (tariff run))
                (demand_charge_enabled (tariff run))) \<and>
           (if demand_charge_enabled (tariff run)
            then variables m = base_variables (length (load_kw ts)) @ [peak_variable] \<and>
                 filter (mentions PeakDemand) (constraints m) = peak_constraints (length (load_kw ts))
            else variables m = base_variables (length (load_kw ts)) \<and>
                 filter (mentions PeakDemand) (constraints m) = [])"
proof -
  from build_model_structure [OF built] obtain import_price export_price where
    s: "price_series (import_price_gbp_per_kwh ts)
             (flat_import_price_gbp_per_kwh (tariff run)) (length (load_kw ts))
             ''No import price provided in timeseries or tariff config'' = Inr import_price"
       "price_series (export_price_gbp_per_kwh ts)
             (flat_export_price_gbp_per_kwh (tariff run)) (length (load_kw ts))
             ''No export price provided in timeseries or tariff config'' = Inr export_price"
       "objective m =
             Some (objective_expr (length (load_kw ts)) import_price export_price
                     (real_of_int (timestep_minutes run) / 60)
                     (degradation_cost_gbp_per_kwh (battery site))
                     (if demand_charge_enabled (tariff run)
                      then demand_charge_gbp_per_kw (tariff run) else 0)
                     (demand_charge_enabled (tariff run)))"
       "objective_sense m = Some ''min''"
       "if demand_charge_enabled (tariff run)
            then variables m = base_variables (length (load_kw ts)) @ [peak_variable] \<and>
                 filter (mentions PeakDemand) (constraints m) = peak_constraints (length (load_kw ts))
            else variables m = base_variables (length (load_kw ts)) \<and>
                 filter (mentions PeakDemand) (constraints m) = []"
    by blast
  have "eval_expr x (objective_expr (length (load_kw ts)) import_price export_price
                     (real_of_int (timestep_minutes run) / 60)
                     (degradation_cost_gbp_per_kwh (battery site))
                     (if demand_charge_enabled (tariff run)
                      then demand_charge_gbp_per_kw (tariff run) else 0)
                     (demand_charge_enabled (tariff run))) =
        spec_objective x (length (load_kw ts)) import_price export_price
                (real_of_int (timestep_minutes run) / 60)
                (degradation_cost_gbp_per_kwh (battery site))
                (demand_charge_gbp_per_kw (tariff run))
                (demand_charge_enabled (tariff run))" for x
    by (simp add: eval_objective_expr spec_objective_def)
  with s show ?thesis by blast
qed

theorem build_model_objective_witness:
  "\<exists>m obj. build_model example_site demand_run two_step_timeseries = Inr m \<and>
     objective m = Some obj \<and> objective_sense m = Some ''min'' \<and>
     eval_expr (\<lambda>v. 1) obj = 3 / 40 - 1 / 40 + 15 \<and>
     variables m = base_variables 2 @ [peak_variable] \<and>
     filter (mentions PeakDemand) (constraints m) = peak_constraints 2"
proof -
  have "\<exists>m. build_model example_site demand_run two_step_timeseries = Inr m"
    by (rule build_model_returns)
       (simp_all add: price_series_def two_step_timeseries_def example_site_def example_battery_def)
  then obtain m where m: "build_model example_site demand_run two_step_timeseries = Inr m" ..
  from build_model_objective [OF m] show ?thesis
    using m
    by (auto simp: price_series_def two_step_timeseries_def demand_run_def example_run_def
        example_tariff_def example_site_def example_battery_def spec_objective_def
        eval_nat_numeral)
qed

text \<open>
  Claim C10. When the frame has a price column, \<open>build_model\<close> does not depend on the
  flat tariff price of that direction (whatever it is, set or \<open>None\<close>), and with both
  columns present the objective is built from the columns' values. When the column is
  absent and the flat price is set, the model is the one built from a column that
  repeats the flat price.
\<close>

theorem timeseries_prices_take_precedence:
  "(import_price_gbp_per_kwh ts = Some column \<longrightarrow>
      build_model site
        (run \<lparr> tariff := (tariff run) \<lparr> flat_import_price_gbp_per_kwh := flat \<rparr> \<rparr>) ts =
      build_model site run ts) \<and>
   (export_price_gbp_per_kwh ts = Some column \<longrightarrow>
      build_model site
        (run \<lparr> tariff := (tariff run) \<lparr> flat_export_price_gbp_per_kwh := flat \<rparr> \<rparr>) ts =
      build_model site run ts) \<and>
   (import_price_gbp_per_kwh ts = None \<and> flat_import_price_gbp_per_kwh (tariff run) = Some price \<longrightarrow>
      build_model site run ts =
      build_model site run
        (ts \<lparr> import_price_gbp_per_kwh := Some (replicate (length (load_kw ts)) price) \<rparr>)) \<and>
   (export_price_gbp_per_kwh ts = None \<and> flat_export_price_gbp_per_kwh (tariff run) = Some price \<longrightarrow>
      build_model site run ts =
      build_model site run
        (ts \<lparr> export_price_gbp_per_kwh := Some (replicate (length (load_kw ts)) price) \<rparr>)) \<and>
   (import_price_gbp_per_kwh ts = Some import_column \<and>
    export_price_gbp_per_kwh ts = Some export_column \<and> build_model site run ts = Inr m \<longrightarrow>
      objective m =
        Some (objective_expr (length (load_kw ts)) import_column export_column
                (real_of_int (timestep_minutes run) / 60)
                (degradation_cost_gbp_per_kwh (battery site))
                (if demand_charge_enabled (tariff run)
                 then demand_charge_gbp_per_kw (tariff run) else 0)
                (demand_charge_enabled (tariff run))))"
proof (intro conjI impI)
  assume "import_price_gbp_per_kwh ts = Some column"
  then show "build_model site
        (run \<lparr> tariff := (tariff run) \<lparr> flat_import_price_gbp_per_kwh := flat \<rparr> \<rparr>) ts =
      build_model site run ts"
    by (simp add: build_model_def price_series_def Let_def cong: sum.case_cong option.case_cong)
next
  assume "export_price_gbp_per_kwh ts = Some column"
  then show "build_model site
        (run \<lparr> tariff := (tariff run) \<lparr> flat_export_price_gbp_per_kwh := flat \<rparr> \<rparr>) ts =
      build_model site run ts"
    by (simp add: build_model_def price_series_def Let_def cong: sum.case_cong option.case_cong)
next
  assume "import_price_gbp_per_kwh ts = None \<and> flat_import_price_gbp_per_kwh (tariff run) = Some price"
  then show "build_model site run ts =
      build_model site run
        (ts \<lparr> import_price_gbp_per_kwh := Some (replicate (length (load_kw ts)) price) \<rparr>)"
    by (simp add: build_model_def price_series_def Let_def cong: sum.case_cong option.case_cong)
next
  assume "export_price_gbp_per_kwh ts = None \<and> flat_export_price_gbp_per_kwh (tariff run) = Some price"
  then show "build_model site run ts =
      build_model site run
        (ts \<lparr> export_price_gbp_per_kwh := Some (replicate (length (load_kw ts)) price) \<rparr>)"
    by (simp add: build_model_def price_series_def Let_def cong: sum.case_cong option.case_cong)
next
  assume a: "import_price_gbp_per_kwh ts = Some import_column \<and>
    export_price_gbp_per_kwh ts = Some export_column \<and> build_model site run ts = Inr m"
  then have "build_model site run ts = Inr m" by simp
  from build_model_structure [OF this] a
  show "objective m =
        Some (objective_expr (length (load_kw ts)) import_column export_column
                (real_of_int (timestep_minutes run) / 60)
                (degradation_cost_gbp_per_kwh (battery site))
                (if demand_charge_enabled (tariff run)
                 then demand_charge_gbp_per_kw (tariff run) else 0)
                (demand_charge_enabled (tariff run)))"
    by (auto simp: price_series_def)
qed

theorem timeseries_prices_take_precedence_witness:
  "import_price_gbp_per_kwh tou_timeseries = Some [1 / 10, 3 / 10] \<and>
   flat_import_price_gbp_per_kwh (tariff example_run) = Some (3 / 20) \<and>
   build_model example_site
     (example_run \<lparr> tariff := (tariff example_run) \<lparr> flat_import_price_gbp_per_kwh := Some 99 \<rparr> \<rparr>)
     tou_timeseries =
   build_model example_site example_run tou_timeseries \<and>
   (\<exists>m. build_model example_site example_run tou_timeseries = Inr m \<and>
        objective m =
          Some (objective_expr 2 [1 / 10, 3 / 10] [1 / 20, 1 / 20] (1 / 4) 0 0 False))"
proof -
  have "\<exists>m. build_model example_site example_run tou_timeseries = Inr m"
    by (rule build_model_returns)
       (simp_all add: price_series_def tou_timeseries_def example_site_def example_battery_def)
  then obtain m where m: "build_model example_site example_run tou_timeseries = Inr m" ..
  from timeseries_prices_take_precedence
    [where ts = tou_timeseries and column = "[1 / 10, 3 / 10]" and site = example_site
       and run = example_run and flat = "Some 99" and price = 0
       and import_column = "[1 / 10, 3 / 10]" and export_column = "[1 / 20, 1 / 20]" and m = m] m
  show ?thesis
    by (simp add: tou_timeseries_def example_run_def example_tariff_def example_site_def
        example_battery_def numeral_2_eq_2)
qed

section \<open>The solver adapter\<close>

text \<open>
  Claim C3, as amended. \<open>solve_model\<close> raises \<open>RuntimeError\<close> in both cases: with the
  message \<open>"Solver failed: "\<close> and the solver's exception text when the solver raises, and
  with \<open>"Solver returned non-optimal status: "\<close> and the status when the solver returns
  with a status other than \<open>"ok"\<close>.
\<close>

theorem solve_model_errors:
  "(solver (solver_time_limit_seconds run_config) = SolverRaises message \<longrightarrow>
      solve_model solver run_config n solve_time =
        Inl (RuntimeError (''Solver failed: '' @ message))) \<and>
   (solver (solver_time_limit_seconds run_config) = SolverReturns m \<and> status m \<noteq> ''ok'' \<longrightarrow>
      solve_model solver run_config n solve_time =
        Inl (RuntimeError (''Solver returned non-optimal status: '' @ status m)))"
  by (simp add: solve_model_def)

theorem solve_model_errors_witness:
  "solve_model (\<lambda>time_limit. SolverRaises ''HiGHS not installed'') example_run 2 0 =
     Inl (RuntimeError ''Solver failed: HiGHS not installed'') \<and>
   solve_model (\<lambda>time_limit. SolverReturns infeasible_model) example_run 2 0 =
     Inl (RuntimeError ''Solver returned non-optimal status: warning'')"
  using solve_model_errors
    [where solver = "\<lambda>time_limit. SolverRaises ''HiGHS not installed''"
       and run_config = example_run and message = "''HiGHS not installed''"
       and n = 2 and solve_time = 0 and m = infeasible_model]
    solve_model_errors
    [where solver = "\<lambda>time_limit. SolverReturns infeasible_model"
       and run_config = example_run and message = "''HiGHS not installed''"
       and n = 2 and solve_time = 0 and m = infeasible_model]
  by (simp add: infeasible_model_def)

text \<open>
  Claim C3 as stated fails: a solver that raises and a solver that reports an infeasible
  problem both make \<open>solve_model\<close> raise a \<open>RuntimeError\<close>; the exceptions have the
  same type and differ in the message only.
\<close>

theorem solve_model_same_exception_type:
  "exception_class (RuntimeError ''Solver failed: HiGHS not installed'') = ''RuntimeError'' \<and>
   exception_class (RuntimeError ''Solver returned non-optimal status: warning'') = ''RuntimeError'' \<and>
   solve_model (\<lambda>time_limit. SolverRaises ''HiGHS not installed'') example_run 2 0 =
     Inl (RuntimeError ''Solver failed: HiGHS not installed'') \<and>
   solve_model (\<lambda>time_limit. SolverReturns infeasible_model) example_run 2 0 =
     Inl (RuntimeError ''Solver returned non-optimal status: warning'')"
  by (simp add: solve_model_def infeasible_model_def)

end
